theory Spec2Isabelle
  imports Complex_Main
begin

section \<open>The notebook 05_OpenAI_parameters as a state-passing program\<close>

text \<open>
  The notebook holds three Python functions (\<open>call_openai_with_max_tokens\<close>,
  \<open>call_openai\<close>, \<open>call_openai_with_presence_penalty\<close>) and one cell that asks
  for \<open>n=2\<close> completions. Each of them builds the keyword arguments of
  \<open>client.chat.completions.create\<close>, performs the call, and reads
  \<open>response.choices\<close>. What answers a call of \<open>create\<close>, the client with the
  service behind it, is not part of the repository: it is a parameter of every definition
  below, an arbitrary function of the request and of a state of its own, so that nothing
  is assumed about what it answers. The client that the notebook builds, with the retries
  it leaves at their default, is such an endpoint in front of a server.
\<close>

subsection \<open>Values and requests\<close>

text \<open>
  The keyword arguments of \<open>create\<close> are kept as Python passes them: an association
  list from argument name to value, in the order of the call. A chat message is the dict
  \<open>{"role": ..., "content": ...}\<close>, again as an association list. The values are only
  passed on, never computed with: \<open>max_tokens\<close>, \<open>n\<close> and \<open>seed\<close> are integers,
  \<open>temperature\<close> and \<open>presence_penalty\<close> are numbers, kept as reals whether the source
  writes \<open>0\<close> or \<open>0.5\<close>.
\<close>

datatype pyval =
    PyNone
  | PyStr string
  | PyInt int
  | PyFloat real
  | PyMessages "(string \<times> string) list list"

type_synonym payload = "(string \<times> pyval) list"

text \<open>\<open>SEED = 123\<close>, the notebook's global.\<close>

definition SEED :: int where
  "SEED = 123"

text \<open>
  \<open>CHAT_COMPLETIONS_MODEL = os.getenv('AZURE_OPENAI_DEPLOYMENT_NAME')\<close> is a string, or
  \<open>None\<close> when the variable is not set; the functions below take it as their
  \<open>model\<close> argument.
\<close>

definition getenv_value :: "string option \<Rightarrow> pyval" where
  "getenv_value v = (case v of None \<Rightarrow> PyNone | Some d \<Rightarrow> PyStr d)"

definition system_message :: "(string \<times> string) list" where
  "system_message = [(''role'', ''system''), (''content'', ''You are a helpful assistant.'')]"

definition user_message :: "string \<Rightarrow> (string \<times> string) list" where
  "user_message prompt = [(''role'', ''user''), (''content'', prompt)]"

subsection \<open>Responses and errors\<close>

text \<open>The part of the response the notebook reads: \<open>response.choices[i].message.content\<close>.\<close>

datatype chat_message = ChatMessage (content: string)

datatype choice = Choice (message: chat_message)

datatype chat_completion = ChatCompletion (choices: "choice list")

text \<open>
  What \<open>create\<close> raises, in the two kinds the specification names: a failure of the
  network, the authentication or the quota, and the rejection of a parameter (with the
  name of the offending field).
\<close>

datatype api_error = RemoteServiceError | InvalidParameterError string

text \<open>
  What a cell of the notebook can raise: an error of \<open>create\<close>, which no cell catches,
  or Python's \<open>IndexError\<close> from \<open>response.choices[0]\<close> on an empty list.
\<close>

datatype error = APIError api_error | IndexError

subsection \<open>The remote endpoint, the trace and the output\<close>

text \<open>
  The endpoint answers a call of \<open>create\<close> with an error or a completion and moves to a
  new state of its own, so two identical requests need not get the same answer. The trace
  records the calls of \<open>create\<close> and their returns, not the traffic on the network.
\<close>

type_synonym 'w endpoint = "payload \<Rightarrow> 'w \<Rightarrow> (api_error + chat_completion) \<times> 'w"

datatype event = Issued payload | Received "api_error + chat_completion"

text \<open>What the cells print, one item per \<open>print\<close> call.\<close>

datatype printed =
    PrintMaxTokens int
  | PrintPresencePenalty real
  | PrintText string
  | PrintIndexed nat string
  | PrintRule

record 'w session =
  remote :: 'w
  trace :: "event list"
  stdout :: "printed list"

text \<open>
  \<open>client.chat.completions.create(**kwargs)\<close>: the call is made with its keyword
  arguments, it blocks, and it returns the answer or raises. How many times the request
  crosses the network during the call is the endpoint's own matter.
\<close>

definition create :: "'w endpoint \<Rightarrow> payload \<Rightarrow> 'w session \<Rightarrow> (api_error + chat_completion) \<times> 'w session" where
  "create ep kwargs s =
     (case ep kwargs (remote s) of
        (r, w) \<Rightarrow> (r, s\<lparr>remote := w, trace := trace s @ [Issued kwargs, Received r]\<rparr>))"

definition print :: "printed \<Rightarrow> 'w session \<Rightarrow> 'w session" where
  "print x s = s\<lparr>stdout := stdout s @ [x]\<rparr>"

subsection \<open>The client and its retries\<close>











subsection \<open>The max\_tokens cell\<close>

definition max_tokens_kwargs :: "string option \<Rightarrow> int \<Rightarrow> payload" where
  "max_tokens_kwargs model max_tokens =
     [(''model'', getenv_value model),
      (''messages'', PyMessages [system_message, user_message ''The best pet is a'']),
      (''max_tokens'', PyInt max_tokens)]"

definition call_openai_with_max_tokens ::
  "'w endpoint \<Rightarrow> string option \<Rightarrow> int \<Rightarrow> 'w session \<Rightarrow> (error + string) \<times> 'w session" where
  "call_openai_with_max_tokens ep model max_tokens s =
     (case create ep (max_tokens_kwargs model max_tokens) s of
        (Inl e, s') \<Rightarrow> (Inl (APIError e), s')
      | (Inr response, s') \<Rightarrow>
          (case choices response of
             [] \<Rightarrow> (Inl IndexError, s')
           | c # _ \<Rightarrow> (Inr (content (message c)), s')))"

text \<open>
  The loop under the function: \<open>for penalty in penalties\<close>, three prints around one call.
  An exception ends the cell.
\<close>

fun max_tokens_loop ::
  "'w endpoint \<Rightarrow> string option \<Rightarrow> int list \<Rightarrow> 'w session \<Rightarrow> (error + unit) \<times> 'w session" where
  "max_tokens_loop ep model [] s = (Inr (), s)"
| "max_tokens_loop ep model (penalty # penalties) s =
     (case call_openai_with_max_tokens ep model penalty (print (PrintMaxTokens penalty) s) of
        (Inl e, s') \<Rightarrow> (Inl e, s')
      | (Inr text, s') \<Rightarrow>
          max_tokens_loop ep model penalties (print PrintRule (print (PrintText text) s')))"

definition max_tokens_cell ::
  "'w endpoint \<Rightarrow> string option \<Rightarrow> 'w session \<Rightarrow> (error + unit) \<times> 'w session" where
  "max_tokens_cell ep model s = max_tokens_loop ep model [16, 32, 60, 100] s"

subsection \<open>The temperature cells\<close>

definition seeded_kwargs :: "string option \<Rightarrow> string \<Rightarrow> real \<Rightarrow> payload" where
  "seeded_kwargs model prompt temperature =
     [(''model'', getenv_value model),
      (''messages'', PyMessages [system_message, user_message prompt]),
      (''max_tokens'', PyInt 60),
      (''seed'', PyInt SEED),
      (''temperature'', PyFloat temperature)]"

definition unseeded_kwargs :: "string option \<Rightarrow> string \<Rightarrow> real \<Rightarrow> payload" where
  "unseeded_kwargs model prompt temperature =
     [(''model'', getenv_value model),
      (''messages'', PyMessages [system_message, user_message prompt]),
      (''max_tokens'', PyInt 60),
      (''temperature'', PyFloat temperature)]"

text \<open>
  The body of \<open>for i in range(num_times)\<close>, by the number of iterations left. The loop
  variable is not used. An exception of \<open>create\<close> or of \<open>choices[0]\<close> leaves the loop.
\<close>

fun call_openai_loop ::
  "'w endpoint \<Rightarrow> string option \<Rightarrow> nat \<Rightarrow> string \<Rightarrow> real \<Rightarrow> bool \<Rightarrow> 'w session \<Rightarrow>
   (error + unit) \<times> 'w session" where
  "call_openai_loop ep model 0 prompt temperature use_seed s = (Inr (), s)"
| "call_openai_loop ep model (Suc k) prompt temperature use_seed s =
     (case (if use_seed
            then create ep (seeded_kwargs model prompt temperature) s
            else create ep (unseeded_kwargs model prompt temperature) s) of
        (Inl e, s') \<Rightarrow> (Inl (APIError e), s')
      | (Inr response, s') \<Rightarrow>
          (case choices response of
             [] \<Rightarrow> (Inl IndexError, s')
           | c # _ \<Rightarrow>
               call_openai_loop ep model k prompt temperature use_seed
                 (print (PrintText (content (message c))) s')))"

text \<open>
  \<open>def call_openai(num_times, prompt, temperature=0.75, use_seed=False)\<close>: an argument
  the caller leaves out is \<open>None\<close> here and takes the default of the signature.
  \<open>range(num_times)\<close> is empty for a number below one.
\<close>

definition call_openai ::
  "'w endpoint \<Rightarrow> string option \<Rightarrow> int \<Rightarrow> string \<Rightarrow> real option \<Rightarrow> bool option \<Rightarrow> 'w session \<Rightarrow>
   (error + unit) \<times> 'w session" where
  "call_openai ep model num_times prompt temperature use_seed s =
     call_openai_loop ep model (nat num_times) prompt
       (case temperature of None \<Rightarrow> 0.75 | Some t \<Rightarrow> t)
       (case use_seed of None \<Rightarrow> False | Some b \<Rightarrow> b) s"

text \<open>\<open>call_openai(10, 'The best pet is a ')\<close>\<close>

definition unseeded_cell ::
  "'w endpoint \<Rightarrow> string option \<Rightarrow> 'w session \<Rightarrow> (error + unit) \<times> 'w session" where
  "unseeded_cell ep model s = call_openai ep model 10 ''The best pet is a '' None None s"

text \<open>\<open>call_openai(10, 'The best pet is a ', temperature = 0, use_seed=True)\<close>\<close>

definition seeded_cell ::
  "'w endpoint \<Rightarrow> string option \<Rightarrow> 'w session \<Rightarrow> (error + unit) \<times> 'w session" where
  "seeded_cell ep model s =
     call_openai ep model 10 ''The best pet is a '' (Some 0) (Some True) s"

subsection \<open>The n cell\<close>

definition n_kwargs :: "string option \<Rightarrow> payload" where
  "n_kwargs model =
     [(''model'', getenv_value model),
      (''messages'', PyMessages [system_message, user_message ''The best pet is a '']),
      (''max_tokens'', PyInt 60),
      (''n'', PyInt 2)]"

text \<open>\<open>for index, c in enumerate(response.choices): print(index, c.message.content)\<close>\<close>

definition print_choices :: "choice list \<Rightarrow> printed list" where
  "print_choices cs = map (\<lambda>(index, c). PrintIndexed index (content (message c))) (enumerate 0 cs)"

definition n_cell ::
  "'w endpoint \<Rightarrow> string option \<Rightarrow> 'w session \<Rightarrow> (error + unit) \<times> 'w session" where
  "n_cell ep model s =
     (case create ep (n_kwargs model) s of
        (Inl e, s') \<Rightarrow> (Inl (APIError e), s')
      | (Inr response, s') \<Rightarrow>
          (Inr (), s'\<lparr>stdout := stdout s' @ print_choices (choices response)\<rparr>))"

subsection \<open>The presence\_penalty cell\<close>

definition presence_penalty_kwargs :: "string option \<Rightarrow> real \<Rightarrow> payload" where
  "presence_penalty_kwargs model presence_penalty =
     [(''model'', getenv_value model),
      (''messages'', PyMessages [system_message, user_message ''The best pet is a'']),
      (''max_tokens'', PyInt 60),
      (''presence_penalty'', PyFloat presence_penalty)]"

definition call_openai_with_presence_penalty ::
  "'w endpoint \<Rightarrow> string option \<Rightarrow> real \<Rightarrow> 'w session \<Rightarrow> (error + string) \<times> 'w session" where
  "call_openai_with_presence_penalty ep model presence_penalty s =
     (case create ep (presence_penalty_kwargs model presence_penalty) s of
        (Inl e, s') \<Rightarrow> (Inl (APIError e), s')
      | (Inr response, s') \<Rightarrow>
          (case choices response of
             [] \<Rightarrow> (Inl IndexError, s')
           | c # _ \<Rightarrow> (Inr (content (message c)), s')))"

fun presence_penalty_loop ::
  "'w endpoint \<Rightarrow> string option \<Rightarrow> real list \<Rightarrow> 'w session \<Rightarrow> (error + unit) \<times> 'w session" where
  "presence_penalty_loop ep model [] s = (Inr (), s)"
| "presence_penalty_loop ep model (penalty # penalties) s =
     (case call_openai_with_presence_penalty ep model penalty
             (print (PrintPresencePenalty penalty) s) of
        (Inl e, s') \<Rightarrow> (Inl e, s')
      | (Inr text, s') \<Rightarrow>
          presence_penalty_loop ep model penalties (print PrintRule (print (PrintText text) s')))"

definition presence_penalty_cell ::
  "'w endpoint \<Rightarrow> string option \<Rightarrow> 'w session \<Rightarrow> (error + unit) \<times> 'w session" where
  "presence_penalty_cell ep model s = presence_penalty_loop ep model [0, 0.5, 1.0, 1.5, 2.0] s"

subsection \<open>The notebook, cell after cell\<close>

text \<open>Running all cells in order: the first exception stops the run.\<close>

definition and_then ::
  "('w session \<Rightarrow> (error + unit) \<times> 'w session) \<Rightarrow> ('w session \<Rightarrow> (error + unit) \<times> 'w session) \<Rightarrow>
   'w session \<Rightarrow> (error + unit) \<times> 'w session" where
  "and_then f g s = (case f s of (Inl e, s') \<Rightarrow> (Inl e, s') | (Inr _, s') \<Rightarrow> g s')"

definition notebook ::
  "'w endpoint \<Rightarrow> string option \<Rightarrow> 'w session \<Rightarrow> (error + unit) \<times> 'w session" where
  "notebook ep model =
     and_then (max_tokens_cell ep model)
       (and_then (unseeded_cell ep model)
          (and_then (seeded_cell ep model)
             (and_then (n_cell ep model) (presence_penalty_cell ep model))))"

subsection \<open>Reading a trace\<close>

text \<open>The requests of a trace, in the order they were issued.\<close>

fun requests :: "event list \<Rightarrow> payload list" where
  "requests [] = []"
| "requests (Issued p # evs) = p # requests evs"
| "requests (Received r # evs) = requests evs"


text \<open>A trace in which every request is followed at once by its answer.\<close>

fun alternating :: "event list \<Rightarrow> bool" where
  "alternating [] = True"
| "alternating (Issued p # Received r # evs) = alternating evs"
| "alternating evs = False"

text \<open>A field of a request: \<open>None\<close> when the keyword argument was not passed.\<close>

definition field :: "payload \<Rightarrow> string \<Rightarrow> pyval option" where
  "field kwargs name = map_of kwargs name"

text \<open>An event that is not a failed call: a call, or an answer with at least one choice.\<close>

fun answered_with_choice :: "event \<Rightarrow> bool" where
  "answered_with_choice (Issued p) = True"
| "answered_with_choice (Received (Inl e)) = False"
| "answered_with_choice (Received (Inr response)) = (choices response \<noteq> [])"

text \<open>The calls of \<open>create\<close> the cells make when none fails, in the order of the notebook.\<close>

definition notebook_requests :: "string option \<Rightarrow> payload list" where
  "notebook_requests model =
     map (max_tokens_kwargs model) [16, 32, 60, 100]
     @ replicate 10 (unseeded_kwargs model ''The best pet is a '' 0.75)
     @ replicate 10 (seeded_kwargs model ''The best pet is a '' 0)
     @ [n_kwargs model]
     @ map (presence_penalty_kwargs model) [0, 0.5, 1.0, 1.5, 2.0]"

text \<open>The keyword arguments of one iteration of \<open>call_openai\<close>: the two branches of its \<open>if use_seed\<close>.\<close>

definition loop_kwargs :: "string option \<Rightarrow> string \<Rightarrow> real \<Rightarrow> bool \<Rightarrow> payload" where
  "loop_kwargs model prompt temperature use_seed =
     (if use_seed then seeded_kwargs model prompt temperature
      else unseeded_kwargs model prompt temperature)"

text \<open>
  What a run of \<open>f\<close> from the session \<open>s\<close> adds: the events it appends to the trace, the
  requests among them, and the items it prints.
\<close>

definition events_of :: "('w session \<Rightarrow> 'a \<times> 'w session) \<Rightarrow> 'w session \<Rightarrow> event list" where
  "events_of f s = drop (length (trace s)) (trace (snd (f s)))"

definition issued_by :: "('w session \<Rightarrow> 'a \<times> 'w session) \<Rightarrow> 'w session \<Rightarrow> payload list" where
  "issued_by f s = requests (events_of f s)"

definition printed_by :: "('w session \<Rightarrow> 'a \<times> 'w session) \<Rightarrow> 'w session \<Rightarrow> printed list" where
  "printed_by f s = drop (length (stdout s)) (stdout (snd (f s)))"

subsection \<open>The defaults the notebook documents\<close>

text \<open>
  The markdown cells give the value the service takes for a parameter that a request leaves
  out: \<open>max_tokens\<close> 16, \<open>temperature\<close> 1, \<open>n\<close> 1, \<open>presence_penalty\<close> 0 and
  \<open>frequency_penalty\<close> 0.
\<close>

definition documented_default :: "string \<Rightarrow> pyval option" where
  "documented_default name =
     map_of [(''max_tokens'', PyInt 16), (''temperature'', PyFloat 1), (''n'', PyInt 1),
             (''presence_penalty'', PyFloat 0), (''frequency_penalty'', PyFloat 0)] name"

text \<open>The value a request runs with: the one it carries, else the documented default.\<close>

definition effective :: "payload \<Rightarrow> string \<Rightarrow> pyval option" where
  "effective kwargs name =
     (case field kwargs name of Some v \<Rightarrow> Some v | None \<Rightarrow> documented_default name)"

subsection \<open>Sessions and endpoints to run the cells on\<close>

definition start :: "'w \<Rightarrow> 'w session" where
  "start w = \<lparr>remote = w, trace = [], stdout = []\<rparr>"

text \<open>An endpoint that answers every request with the given texts, one choice each.\<close>

definition answers :: "string list \<Rightarrow> unit endpoint" where
  "answers texts kwargs w = (Inr (ChatCompletion (map (\<lambda>t. Choice (ChatMessage t)) texts)), w)"

text \<open>An endpoint that fails every request with the given error.\<close>

definition refuses :: "api_error \<Rightarrow> unit endpoint" where
  "refuses e kwargs w = (Inl e, w)"

text \<open>An endpoint whose answer depends on its own state, which every request flips.\<close>

definition alternates :: "bool endpoint" where
  "alternates kwargs w =
     (Inr (ChatCompletion [Choice (ChatMessage (if w then ''dog'' else ''cat''))]), \<not> w)"

text \<open>An endpoint that rejects a \<open>presence_penalty\<close> outside the documented range.\<close>

definition enforces_range :: "unit endpoint" where
  "enforces_range kwargs w =
     (case field kwargs ''presence_penalty'' of
        Some (PyFloat v) \<Rightarrow>
          if v < - 2 \<or> 2 < v then (Inl (InvalidParameterError ''presence_penalty''), w)
          else (Inr (ChatCompletion [Choice (ChatMessage ''cat'')]), w)
      | _ \<Rightarrow> (Inr (ChatCompletion [Choice (ChatMessage ''cat'')]), w))"




section \<open>How a run extends the trace\<close>

lemma create_eq:
  "create ep kwargs s =
     (fst (ep kwargs (remote s)),
      s\<lparr>remote := snd (ep kwargs (remote s)),
        trace := trace s @ [Issued kwargs, Received (fst (ep kwargs (remote s)))]\<rparr>)"
  by (simp add: create_def split: prod.splits)

lemma requests_append: "requests (xs @ ys) = requests xs @ requests ys"
  by (induction xs rule: requests.induct) simp_all

lemma alternating_append: "alternating xs \<Longrightarrow> alternating ys \<Longrightarrow> alternating (xs @ ys)"
  by (induction xs rule: alternating.induct) simp_all


lemma call_openai_with_max_tokens_eq:
  "call_openai_with_max_tokens ep model max_tokens s =
     ((case fst (ep (max_tokens_kwargs model max_tokens) (remote s)) of
         Inl e \<Rightarrow> Inl (APIError e)
       | Inr response \<Rightarrow>
           (case choices response of [] \<Rightarrow> Inl IndexError | c # _ \<Rightarrow> Inr (content (message c)))),
      s\<lparr>remote := snd (ep (max_tokens_kwargs model max_tokens) (remote s)),
        trace := trace s @ [Issued (max_tokens_kwargs model max_tokens),
                            Received (fst (ep (max_tokens_kwargs model max_tokens) (remote s)))]\<rparr>)"
  by (simp add: call_openai_with_max_tokens_def create_eq split: sum.splits list.splits)

lemma call_openai_with_presence_penalty_eq:
  "call_openai_with_presence_penalty ep model pp s =
     ((case fst (ep (presence_penalty_kwargs model pp) (remote s)) of
         Inl e \<Rightarrow> Inl (APIError e)
       | Inr response \<Rightarrow>
           (case choices response of [] \<Rightarrow> Inl IndexError | c # _ \<Rightarrow> Inr (content (message c)))),
      s\<lparr>remote := snd (ep (presence_penalty_kwargs model pp) (remote s)),
        trace := trace s @ [Issued (presence_penalty_kwargs model pp),
                            Received (fst (ep (presence_penalty_kwargs model pp) (remote s)))]\<rparr>)"
  by (simp add: call_openai_with_presence_penalty_def create_eq split: sum.splits list.splits)

lemma n_cell_eq:
  "n_cell ep model s =
     ((case fst (ep (n_kwargs model) (remote s)) of
         Inl e \<Rightarrow> Inl (APIError e)
       | Inr response \<Rightarrow> Inr ()),
      s\<lparr>remote := snd (ep (n_kwargs model) (remote s)),
        trace := trace s @ [Issued (n_kwargs model), Received (fst (ep (n_kwargs model) (remote s)))],
        stdout := stdout s @
          (case fst (ep (n_kwargs model) (remote s)) of
             Inl e \<Rightarrow> []
           | Inr response \<Rightarrow> print_choices (choices response))\<rparr>)"
  by (simp add: n_cell_def create_eq split: sum.splits)


lemma call_openai_loop_Suc:
  "call_openai_loop ep model (Suc k) prompt temperature use_seed s =
     (case fst (ep (loop_kwargs model prompt temperature use_seed) (remote s)) of
        Inl e \<Rightarrow>
          (Inl (APIError e),
           s\<lparr>remote := snd (ep (loop_kwargs model prompt temperature use_seed) (remote s)),
             trace := trace s @ [Issued (loop_kwargs model prompt temperature use_seed), Received (Inl e)]\<rparr>)
      | Inr response \<Rightarrow>
          (case choices response of
             [] \<Rightarrow>
               (Inl IndexError,
                s\<lparr>remote := snd (ep (loop_kwargs model prompt temperature use_seed) (remote s)),
                  trace := trace s @ [Issued (loop_kwargs model prompt temperature use_seed),
                                      Received (Inr response)]\<rparr>)
           | c # _ \<Rightarrow>
               call_openai_loop ep model k prompt temperature use_seed
                 (print (PrintText (content (message c)))
                    (s\<lparr>remote := snd (ep (loop_kwargs model prompt temperature use_seed) (remote s)),
                       trace := trace s @ [Issued (loop_kwargs model prompt temperature use_seed),
                                           Received (Inr response)]\<rparr>))))"
  by (simp add: loop_kwargs_def create_eq split: sum.splits list.splits)

lemma call_openai_loop_run:
  "\<exists>evs. trace (snd (call_openai_loop ep model k prompt temperature use_seed s)) = trace s @ evs
     \<and> alternating evs
     \<and> set (requests evs) \<subseteq> {loop_kwargs model prompt temperature use_seed}
     \<and> length (requests evs) \<le> k
     \<and> (fst (call_openai_loop ep model k prompt temperature use_seed s) = Inr ()
          \<longrightarrow> length (requests evs) = k)
     \<and> (\<forall>e. Received (Inl e) \<in> set evs \<longrightarrow>
            last evs = Received (Inl e)
          \<and> fst (call_openai_loop ep model k prompt temperature use_seed s) = Inl (APIError e))
     \<and> (\<forall>e. fst (call_openai_loop ep model k prompt temperature use_seed s) = Inl (APIError e)
            \<longrightarrow> evs \<noteq> [] \<and> last evs = Received (Inl e))
     \<and> (fst (call_openai_loop ep model k prompt temperature use_seed s) = Inl IndexError
            \<longrightarrow> evs \<noteq> [] \<and> (\<exists>response. last evs = Received (Inr response) \<and> choices response = []))"
proof (induction k arbitrary: s)
  case 0
  show ?case by simp
next
  case (Suc k)
  let ?kw = "loop_kwargs model prompt temperature use_seed"
  let ?r = "fst (ep ?kw (remote s))"
  let ?w = "snd (ep ?kw (remote s))"
  show ?case
  proof (cases ?r)
    case (Inl e)
    then show ?thesis
      by (intro exI [of _ "[Issued ?kw, Received (Inl e)]"]) (simp add: call_openai_loop_Suc del: call_openai_loop.simps(2))
  next
    case (Inr response)
    show ?thesis
    proof (cases "choices response")
      case Nil
      with Inr show ?thesis
        by (intro exI [of _ "[Issued ?kw, Received (Inr response)]"]) (simp add: call_openai_loop_Suc del: call_openai_loop.simps(2))
    next
      case (Cons c rest)
      let ?s1 = "print (PrintText (content (message c)))
                   (s\<lparr>remote := ?w, trace := trace s @ [Issued ?kw, Received (Inr response)]\<rparr>)"
      have step: "call_openai_loop ep model (Suc k) prompt temperature use_seed s =
                  call_openai_loop ep model k prompt temperature use_seed ?s1"
        using Inr Cons by (simp add: call_openai_loop_Suc del: call_openai_loop.simps(2))
      from Suc.IH [of ?s1] obtain evs where
        tr: "trace (snd (call_openai_loop ep model k prompt temperature use_seed ?s1)) = trace ?s1 @ evs"
        and alt: "alternating evs"
        and req: "set (requests evs) \<subseteq> {?kw}"
        and len: "length (requests evs) \<le> k"
        and ok: "fst (call_openai_loop ep model k prompt temperature use_seed ?s1) = Inr ()
                   \<longrightarrow> length (requests evs) = k"
        and fail: "\<forall>e. Received (Inl e) \<in> set evs \<longrightarrow>
                     last evs = Received (Inl e)
                   \<and> fst (call_openai_loop ep model k prompt temperature use_seed ?s1) = Inl (APIError e)"
        and err: "\<forall>e. fst (call_openai_loop ep model k prompt temperature use_seed ?s1) = Inl (APIError e)
                     \<longrightarrow> evs \<noteq> [] \<and> last evs = Received (Inl e)"
        and idx: "fst (call_openai_loop ep model k prompt temperature use_seed ?s1) = Inl IndexError
                     \<longrightarrow> evs \<noteq> [] \<and> (\<exists>response. last evs = Received (Inr response) \<and> choices response = [])"
        by blast
      let ?evs = "[Issued ?kw, Received (Inr response)] @ evs"
      have 1: "trace (snd (call_openai_loop ep model (Suc k) prompt temperature use_seed s)) = trace s @ ?evs"
        using tr step by (simp add: print_def)
      have 2: "alternating ?evs" using alt by simp
      have 3: "set (requests ?evs) \<subseteq> {?kw}" using req by simp
      have 4: "length (requests ?evs) \<le> Suc k" using len by simp
      have 5: "fst (call_openai_loop ep model (Suc k) prompt temperature use_seed s) = Inr ()
                 \<longrightarrow> length (requests ?evs) = Suc k"
        using ok step by simp
      have 6: "\<forall>e. Received (Inl e) \<in> set ?evs \<longrightarrow>
                 last ?evs = Received (Inl e)
               \<and> fst (call_openai_loop ep model (Suc k) prompt temperature use_seed s) = Inl (APIError e)"
      proof (intro allI impI)
        fix e assume "Received (Inl e) \<in> set ?evs"
        then have in_evs: "Received (Inl e) \<in> set evs" by simp
        then have "evs \<noteq> []" by auto
        with in_evs fail step
        show "last ?evs = Received (Inl e)
               \<and> fst (call_openai_loop ep model (Suc k) prompt temperature use_seed s) = Inl (APIError e)"
          by simp
      qed
      have 7: "\<forall>e. fst (call_openai_loop ep model (Suc k) prompt temperature use_seed s) = Inl (APIError e)
                 \<longrightarrow> ?evs \<noteq> [] \<and> last ?evs = Received (Inl e)"
        using err step by simp
      have 8: "fst (call_openai_loop ep model (Suc k) prompt temperature use_seed s) = Inl IndexError
                 \<longrightarrow> ?evs \<noteq> [] \<and> (\<exists>response. last ?evs = Received (Inr response) \<and> choices response = [])"
        using idx step by simp
      from 1 2 3 4 5 6 7 8 show ?thesis by blast
    qed
  qed
qed



lemma events_of_max_tokens:
  "events_of (call_openai_with_max_tokens ep model max_tokens) s =
     [Issued (max_tokens_kwargs model max_tokens),
      Received (fst (ep (max_tokens_kwargs model max_tokens) (remote s)))]"
  by (simp add: events_of_def call_openai_with_max_tokens_eq)

lemma events_of_presence_penalty:
  "events_of (call_openai_with_presence_penalty ep model pp) s =
     [Issued (presence_penalty_kwargs model pp),
      Received (fst (ep (presence_penalty_kwargs model pp) (remote s)))]"
  by (simp add: events_of_def call_openai_with_presence_penalty_eq)

lemma events_of_n_cell:
  "events_of (n_cell ep model) s =
     [Issued (n_kwargs model), Received (fst (ep (n_kwargs model) (remote s)))]"
  by (simp add: events_of_def n_cell_eq)

lemma call_openai_run:
  "\<exists>evs. trace (snd (call_openai ep model num_times prompt temperature use_seed s)) = trace s @ evs
     \<and> events_of (call_openai ep model num_times prompt temperature use_seed) s = evs
     \<and> alternating evs
     \<and> set (requests evs) \<subseteq>
          {loop_kwargs model prompt (case temperature of None \<Rightarrow> 0.75 | Some t \<Rightarrow> t)
             (case use_seed of None \<Rightarrow> False | Some b \<Rightarrow> b)}
     \<and> length (requests evs) \<le> nat num_times
     \<and> (fst (call_openai ep model num_times prompt temperature use_seed s) = Inr ()
          \<longrightarrow> length (requests evs) = nat num_times)
     \<and> (\<forall>e. Received (Inl e) \<in> set evs \<longrightarrow>
            last evs = Received (Inl e)
          \<and> fst (call_openai ep model num_times prompt temperature use_seed s) = Inl (APIError e))
     \<and> (\<forall>e. fst (call_openai ep model num_times prompt temperature use_seed s) = Inl (APIError e)
            \<longrightarrow> evs \<noteq> [] \<and> last evs = Received (Inl e))
     \<and> (fst (call_openai ep model num_times prompt temperature use_seed s) = Inl IndexError
            \<longrightarrow> evs \<noteq> [] \<and> (\<exists>response. last evs = Received (Inr response) \<and> choices response = []))"
  unfolding call_openai_def events_of_def
  using call_openai_loop_run [of ep model "nat num_times" prompt
      "case temperature of None \<Rightarrow> 0.75 | Some t \<Rightarrow> t"
      "case use_seed of None \<Rightarrow> False | Some b \<Rightarrow> b" s]
  by (elim exE conjE, intro exI conjI) simp_all

lemma max_tokens_loop_run:
  "\<exists>evs. trace (snd (max_tokens_loop ep model penalties s)) = trace s @ evs
     \<and> alternating evs
     \<and> set (requests evs) \<subseteq> max_tokens_kwargs model ` set penalties"
proof (induction penalties arbitrary: s)
  case Nil
  show ?case by simp
next
  case (Cons penalty penalties)
  let ?kw = "max_tokens_kwargs model penalty"
  let ?s0 = "print (PrintMaxTokens penalty) s"
  let ?r = "fst (ep ?kw (remote ?s0))"
  let ?s1 = "(?s0) \<lparr>remote := snd (ep ?kw (remote ?s0)), trace := trace ?s0 @ [Issued ?kw, Received ?r]\<rparr>"
  have call: "call_openai_with_max_tokens ep model penalty ?s0 =
      ((case ?r of Inl e \<Rightarrow> Inl (APIError e)
        | Inr response \<Rightarrow>
            (case choices response of [] \<Rightarrow> Inl IndexError | c # _ \<Rightarrow> Inr (content (message c)))), ?s1)"
    by (rule call_openai_with_max_tokens_eq)
  show ?case
  proof (cases "fst (call_openai_with_max_tokens ep model penalty ?s0)")
    case (Inl e)
    then have "max_tokens_loop ep model (penalty # penalties) s = (Inl e, ?s1)"
      using call by simp
    then show ?thesis
      by (intro exI [of _ "[Issued ?kw, Received ?r]"]) (simp add: print_def)
  next
    case (Inr answer)
    let ?s2 = "print PrintRule (print (PrintText answer) ?s1)"
    have step: "max_tokens_loop ep model (penalty # penalties) s = max_tokens_loop ep model penalties ?s2"
      using call Inr by simp
    from Cons.IH [of ?s2] obtain evs where
      tr: "trace (snd (max_tokens_loop ep model penalties ?s2)) = trace ?s2 @ evs"
      and alt: "alternating evs"
      and req: "set (requests evs) \<subseteq> max_tokens_kwargs model ` set penalties"
      by blast
    let ?evs = "[Issued ?kw, Received ?r] @ evs"
    have "trace (snd (max_tokens_loop ep model (penalty # penalties) s)) = trace s @ ?evs"
      using tr step by (simp add: print_def)
    moreover have "alternating ?evs" using alt by simp
    moreover have "set (requests ?evs) \<subseteq> max_tokens_kwargs model ` set (penalty # penalties)"
      using req by auto
    ultimately show ?thesis by blast
  qed
qed

lemma presence_penalty_loop_run:
  "\<exists>evs. trace (snd (presence_penalty_loop ep model penalties s)) = trace s @ evs
     \<and> alternating evs
     \<and> set (requests evs) \<subseteq> presence_penalty_kwargs model ` set penalties"
proof (induction penalties arbitrary: s)
  case Nil
  show ?case by simp
next
  case (Cons penalty penalties)
  let ?kw = "presence_penalty_kwargs model penalty"
  let ?s0 = "print (PrintPresencePenalty penalty) s"
  let ?r = "fst (ep ?kw (remote ?s0))"
  let ?s1 = "(?s0) \<lparr>remote := snd (ep ?kw (remote ?s0)), trace := trace ?s0 @ [Issued ?kw, Received ?r]\<rparr>"
  have call: "call_openai_with_presence_penalty ep model penalty ?s0 =
      ((case ?r of Inl e \<Rightarrow> Inl (APIError e)
        | Inr response \<Rightarrow>
            (case choices response of [] \<Rightarrow> Inl IndexError | c # _ \<Rightarrow> Inr (content (message c)))), ?s1)"
    by (rule call_openai_with_presence_penalty_eq)
  show ?case
  proof (cases "fst (call_openai_with_presence_penalty ep model penalty ?s0)")
    case (Inl e)
    then have "presence_penalty_loop ep model (penalty # penalties) s = (Inl e, ?s1)"
      using call by simp
    then show ?thesis
      by (intro exI [of _ "[Issued ?kw, Received ?r]"]) (simp add: print_def)
  next
    case (Inr answer)
    let ?s2 = "print PrintRule (print (PrintText answer) ?s1)"
    have step: "presence_penalty_loop ep model (penalty # penalties) s =
                presence_penalty_loop ep model penalties ?s2"
      using call Inr by simp
    from Cons.IH [of ?s2] obtain evs where
      tr: "trace (snd (presence_penalty_loop ep model penalties ?s2)) = trace ?s2 @ evs"
      and alt: "alternating evs"
      and req: "set (requests evs) \<subseteq> presence_penalty_kwargs model ` set penalties"
      by blast
    let ?evs = "[Issued ?kw, Received ?r] @ evs"
    have "trace (snd (presence_penalty_loop ep model (penalty # penalties) s)) = trace s @ ?evs"
      using tr step by (simp add: print_def)
    moreover have "alternating ?evs" using alt by simp
    moreover have "set (requests ?evs) \<subseteq> presence_penalty_kwargs model ` set (penalty # penalties)"
      using req by auto
    ultimately show ?thesis by blast
  qed
qed

lemma and_then_run:
  assumes f: "\<And>s. \<exists>evs. trace (snd (f s)) = trace s @ evs \<and> alternating evs \<and> set (requests evs) \<subseteq> A"
      and g: "\<And>s. \<exists>evs. trace (snd (g s)) = trace s @ evs \<and> alternating evs \<and> set (requests evs) \<subseteq> B"
  shows "\<exists>evs. trace (snd (and_then f g s)) = trace s @ evs \<and> alternating evs
           \<and> set (requests evs) \<subseteq> A \<union> B"
proof -
  from f [of s] obtain evs1 where
    1: "trace (snd (f s)) = trace s @ evs1" "alternating evs1" "set (requests evs1) \<subseteq> A"
    by blast
  show ?thesis
  proof (cases "fst (f s)")
    case (Inl e)
    then have "and_then f g s = (Inl e, snd (f s))"
      by (cases "f s") (simp add: and_then_def)
    with 1 show ?thesis by auto
  next
    case (Inr u)
    then have eq: "and_then f g s = g (snd (f s))"
      by (cases "f s") (simp add: and_then_def)
    from g [of "snd (f s)"] obtain evs2 where
      2: "trace (snd (g (snd (f s)))) = trace (snd (f s)) @ evs2" "alternating evs2"
         "set (requests evs2) \<subseteq> B"
      by blast
    have "trace (snd (and_then f g s)) = trace s @ (evs1 @ evs2)"
      using eq 1 2 by simp
    moreover have "alternating (evs1 @ evs2)"
      using 1 2 by (simp add: alternating_append)
    moreover have "set (requests (evs1 @ evs2)) \<subseteq> A \<union> B"
      using 1 2 by (auto simp: requests_append)
    ultimately show ?thesis by blast
  qed
qed


lemma notebook_run:
  "\<exists>evs. trace (snd (notebook ep model s)) = trace s @ evs \<and> alternating evs
     \<and> set (requests evs) \<subseteq>
          max_tokens_kwargs model ` {16, 32, 60, 100}
        \<union> ({unseeded_kwargs model ''The best pet is a '' 0.75}
        \<union> ({seeded_kwargs model ''The best pet is a '' 0}
        \<union> ({n_kwargs model}
        \<union> presence_penalty_kwargs model ` {0, 0.5, 1, 1.5, 2})))"
proof -
  have c1: "\<exists>evs. trace (snd (max_tokens_cell ep model s)) = trace s @ evs \<and> alternating evs
              \<and> set (requests evs) \<subseteq> max_tokens_kwargs model ` {16, 32, 60, 100}" for s
    using max_tokens_loop_run [of ep model "[16, 32, 60, 100]" s]
    by (simp add: max_tokens_cell_def)
  have c2: "\<exists>evs. trace (snd (unseeded_cell ep model s)) = trace s @ evs \<and> alternating evs
              \<and> set (requests evs) \<subseteq> {unseeded_kwargs model ''The best pet is a '' 0.75}" for s
    using call_openai_run [of ep model 10 "''The best pet is a ''" None None s]
    unfolding unseeded_cell_def by (elim exE conjE, intro exI conjI) (simp_all add: loop_kwargs_def)
  have c3: "\<exists>evs. trace (snd (seeded_cell ep model s)) = trace s @ evs \<and> alternating evs
              \<and> set (requests evs) \<subseteq> {seeded_kwargs model ''The best pet is a '' 0}" for s
    using call_openai_run [of ep model 10 "''The best pet is a ''" "Some 0" "Some True" s]
    unfolding seeded_cell_def by (elim exE conjE, intro exI conjI) (simp_all add: loop_kwargs_def)
  have c4: "\<exists>evs. trace (snd (n_cell ep model s)) = trace s @ evs \<and> alternating evs
              \<and> set (requests evs) \<subseteq> {n_kwargs model}" for s
    by (intro exI [of _ "[Issued (n_kwargs model), Received (fst (ep (n_kwargs model) (remote s)))]"])
       (simp add: n_cell_eq)
  have c5: "\<exists>evs. trace (snd (presence_penalty_cell ep model s)) = trace s @ evs \<and> alternating evs
              \<and> set (requests evs) \<subseteq> presence_penalty_kwargs model ` {0, 0.5, 1, 1.5, 2}" for s
    using presence_penalty_loop_run [of ep model "[0, 0.5, 1.0, 1.5, 2.0]" s]
    by (simp add: presence_penalty_cell_def)
  show ?thesis
    unfolding notebook_def
    by (intro and_then_run c1 c2 c3 c4 c5)
qed

section \<open>The requests of each operation\<close>

lemma issued_by_max_tokens:
  "issued_by (call_openai_with_max_tokens ep model max_tokens) s = [max_tokens_kwargs model max_tokens]"
  by (simp add: issued_by_def events_of_max_tokens)

lemma issued_by_presence_penalty:
  "issued_by (call_openai_with_presence_penalty ep model presence_penalty) s =
     [presence_penalty_kwargs model presence_penalty]"
  by (simp add: issued_by_def events_of_presence_penalty)

lemma issued_by_n_cell: "issued_by (n_cell ep model) s = [n_kwargs model]"
  by (simp add: issued_by_def events_of_n_cell)

lemma issued_by_call_openai:
  "set (issued_by (call_openai ep model num_times prompt temperature use_seed) s) \<subseteq>
     {loop_kwargs model prompt (case temperature of None \<Rightarrow> 0.75 | Some t \<Rightarrow> t)
        (case use_seed of None \<Rightarrow> False | Some b \<Rightarrow> b)}"
  using call_openai_run [of ep model num_times prompt temperature use_seed s]
  unfolding issued_by_def by (elim exE conjE) simp

lemma issued_by_notebook:
  "set (issued_by (notebook ep model) s) \<subseteq>
       max_tokens_kwargs model ` {16, 32, 60, 100}
     \<union> ({unseeded_kwargs model ''The best pet is a '' 0.75}
     \<union> ({seeded_kwargs model ''The best pet is a '' 0}
     \<union> ({n_kwargs model}
     \<union> presence_penalty_kwargs model ` {0, 0.5, 1, 1.5, 2})))"
proof -
  from notebook_run [of ep model s] obtain evs where
    tr: "trace (snd (notebook ep model s)) = trace s @ evs"
    and req: "set (requests evs) \<subseteq>
       max_tokens_kwargs model ` {16, 32, 60, 100}
     \<union> ({unseeded_kwargs model ''The best pet is a '' 0.75}
     \<union> ({seeded_kwargs model ''The best pet is a '' 0}
     \<union> ({n_kwargs model}
     \<union> presence_penalty_kwargs model ` {0, 0.5, 1, 1.5, 2})))"
    by blast
  from tr have "issued_by (notebook ep model) s = requests evs"
    by (simp add: issued_by_def events_of_def)
  with req show ?thesis by simp
qed

lemma messages_of_kwargs:
  "field (max_tokens_kwargs model max_tokens) ''messages'' =
     Some (PyMessages [system_message, user_message ''The best pet is a''])"
  "field (seeded_kwargs model prompt temperature) ''messages'' =
     Some (PyMessages [system_message, user_message prompt])"
  "field (unseeded_kwargs model prompt temperature) ''messages'' =
     Some (PyMessages [system_message, user_message prompt])"
  "field (n_kwargs model) ''messages'' =
     Some (PyMessages [system_message, user_message ''The best pet is a ''])"
  "field (presence_penalty_kwargs model presence_penalty) ''messages'' =
     Some (PyMessages [system_message, user_message ''The best pet is a''])"
  by (simp_all add: field_def max_tokens_kwargs_def seeded_kwargs_def unseeded_kwargs_def
        n_kwargs_def presence_penalty_kwargs_def)

lemma absent_fields:
  "field (max_tokens_kwargs model max_tokens) ''frequency_penalty'' = None"
  "field (max_tokens_kwargs model max_tokens) ''top_p'' = None"
  "field (max_tokens_kwargs model max_tokens) ''stop'' = None"
  "field (max_tokens_kwargs model max_tokens) ''seed'' = None"
  "field (seeded_kwargs model prompt temperature) ''frequency_penalty'' = None"
  "field (seeded_kwargs model prompt temperature) ''top_p'' = None"
  "field (seeded_kwargs model prompt temperature) ''stop'' = None"
  "field (unseeded_kwargs model prompt temperature) ''frequency_penalty'' = None"
  "field (unseeded_kwargs model prompt temperature) ''top_p'' = None"
  "field (unseeded_kwargs model prompt temperature) ''stop'' = None"
  "field (unseeded_kwargs model prompt temperature) ''seed'' = None"
  "field (n_kwargs model) ''frequency_penalty'' = None"
  "field (n_kwargs model) ''top_p'' = None"
  "field (n_kwargs model) ''stop'' = None"
  "field (n_kwargs model) ''seed'' = None"
  "field (presence_penalty_kwargs model presence_penalty) ''frequency_penalty'' = None"
  "field (presence_penalty_kwargs model presence_penalty) ''top_p'' = None"
  "field (presence_penalty_kwargs model presence_penalty) ''stop'' = None"
  "field (presence_penalty_kwargs model presence_penalty) ''seed'' = None"
  by (simp_all add: field_def max_tokens_kwargs_def seeded_kwargs_def unseeded_kwargs_def
        n_kwargs_def presence_penalty_kwargs_def)

lemma seed_of_seeded_kwargs:
  "field (seeded_kwargs model prompt temperature) ''seed'' = Some (PyInt 123)"
  by (simp add: field_def seeded_kwargs_def SEED_def)

lemma printed_by_n_cell:
  "printed_by (n_cell ep model) s =
     (case fst (ep (n_kwargs model) (remote s)) of
        Inl e \<Rightarrow> []
      | Inr response \<Rightarrow> print_choices (choices response))"
  by (simp add: printed_by_def n_cell_eq)

lemma length_print_choices: "length (print_choices cs) = length cs"
  by (simp add: print_choices_def)

lemma nth_print_choices:
  "i < length cs \<Longrightarrow> print_choices cs ! i = PrintIndexed i (content (message (cs ! i)))"
  by (simp add: print_choices_def nth_enumerate_eq)

lemma issued_by_call_openai_defaults:
  "set (issued_by (call_openai ep model num_times prompt None None) s) \<subseteq>
     {unseeded_kwargs model prompt 0.75}"
  using issued_by_call_openai [of ep model num_times prompt None None s]
  by (simp add: loop_kwargs_def)

lemma unseeded_kwargs_fields:
  "field (unseeded_kwargs model prompt temperature) ''max_tokens'' = Some (PyInt 60)"
  "field (unseeded_kwargs model prompt temperature) ''temperature'' = Some (PyFloat temperature)"
  "field (unseeded_kwargs model prompt temperature) ''n'' = None"
  "field (unseeded_kwargs model prompt temperature) ''presence_penalty'' = None"
  by (simp_all add: field_def unseeded_kwargs_def)

lemma max_tokens_always_sent:
  "field (max_tokens_kwargs model max_tokens) ''max_tokens'' = Some (PyInt max_tokens)"
  "field (seeded_kwargs model prompt temperature) ''max_tokens'' = Some (PyInt 60)"
  "field (n_kwargs model) ''max_tokens'' = Some (PyInt 60)"
  "field (presence_penalty_kwargs model presence_penalty) ''max_tokens'' = Some (PyInt 60)"
  by (simp_all add: field_def max_tokens_kwargs_def seeded_kwargs_def n_kwargs_def
        presence_penalty_kwargs_def)

lemma call_openai_loop_same_answers:
  assumes det: "\<forall>w w'. fst (ep (loop_kwargs model prompt temperature use_seed) w) =
                        fst (ep (loop_kwargs model prompt temperature use_seed) w')"
  shows "stdout (snd (call_openai_loop ep model k prompt temperature use_seed s)) =
           stdout s @
           (case fst (ep (loop_kwargs model prompt temperature use_seed) w0) of
              Inl e \<Rightarrow> []
            | Inr response \<Rightarrow>
                (case choices response of
                   [] \<Rightarrow> []
                 | c # _ \<Rightarrow> replicate k (PrintText (content (message c)))))"
proof (induction k arbitrary: s)
  case 0
  show ?case by (simp split: sum.splits list.splits)
next
  case (Suc k)
  let ?kw = "loop_kwargs model prompt temperature use_seed"
  from det have same: "fst (ep ?kw (remote s)) = fst (ep ?kw w0)"
    by blast
  show ?case
  proof (cases "fst (ep ?kw w0)")
    case (Inl e)
    with same show ?thesis
      by (simp add: call_openai_loop_Suc del: call_openai_loop.simps(2))
  next
    case (Inr response)
    show ?thesis
    proof (cases "choices response")
      case Nil
      with Inr same show ?thesis
        by (simp add: call_openai_loop_Suc del: call_openai_loop.simps(2))
    next
      case (Cons c rest)
      with Inr same Suc.IH show ?thesis
        by (simp add: call_openai_loop_Suc print_def del: call_openai_loop.simps(2))
    qed
  qed
qed

section \<open>The calls of each run and the attempts of the client\<close>


lemma replicate_of_singleton_set: "set xs \<subseteq> {x} \<Longrightarrow> xs = replicate (length xs) x"
  by (induction xs) auto

lemma call_openai_loop_answers:
  "\<exists>evs. trace (snd (call_openai_loop ep model k prompt temperature use_seed s)) = trace s @ evs
     \<and> (0 < k \<longrightarrow> requests evs \<noteq> [])
     \<and> (fst (call_openai_loop ep model k prompt temperature use_seed s) = Inr ()
          \<longleftrightarrow> list_all answered_with_choice evs)"
proof (induction k arbitrary: s)
  case 0
  show ?case by simp
next
  case (Suc k)
  let ?kw = "loop_kwargs model prompt temperature use_seed"
  let ?r = "fst (ep ?kw (remote s))"
  let ?w = "snd (ep ?kw (remote s))"
  show ?case
  proof (cases ?r)
    case (Inl e)
    then show ?thesis
      by (intro exI [of _ "[Issued ?kw, Received (Inl e)]"])
         (simp add: call_openai_loop_Suc del: call_openai_loop.simps(2))
  next
    case (Inr response)
    show ?thesis
    proof (cases "choices response")
      case Nil
      with Inr show ?thesis
        by (intro exI [of _ "[Issued ?kw, Received (Inr response)]"])
           (simp add: call_openai_loop_Suc del: call_openai_loop.simps(2))
    next
      case (Cons c rest)
      let ?s1 = "print (PrintText (content (message c)))
                   (s\<lparr>remote := ?w, trace := trace s @ [Issued ?kw, Received (Inr response)]\<rparr>)"
      have step: "call_openai_loop ep model (Suc k) prompt temperature use_seed s =
                  call_openai_loop ep model k prompt temperature use_seed ?s1"
        using Inr Cons by (simp add: call_openai_loop_Suc del: call_openai_loop.simps(2))
      from Suc.IH [of ?s1] obtain evs where
        tr: "trace (snd (call_openai_loop ep model k prompt temperature use_seed ?s1)) = trace ?s1 @ evs"
        and ok: "fst (call_openai_loop ep model k prompt temperature use_seed ?s1) = Inr ()
                   \<longleftrightarrow> list_all answered_with_choice evs"
        by blast
      let ?evs = "[Issued ?kw, Received (Inr response)] @ evs"
      have 1: "trace (snd (call_openai_loop ep model (Suc k) prompt temperature use_seed s)) = trace s @ ?evs"
        using tr step by (simp add: print_def)
      have 2: "requests ?evs \<noteq> []" by simp
      have 3: "fst (call_openai_loop ep model (Suc k) prompt temperature use_seed s) = Inr ()
                 \<longleftrightarrow> list_all answered_with_choice ?evs"
        using ok step Cons by simp
      from 1 2 3 show ?thesis by blast
    qed
  qed
qed

lemma call_openai_answers:
  "events_of (call_openai ep model num_times prompt temperature use_seed) s = evs \<Longrightarrow>
     (0 < num_times \<longrightarrow> requests evs \<noteq> [])
   \<and> (fst (call_openai ep model num_times prompt temperature use_seed s) = Inr ()
        \<longleftrightarrow> list_all answered_with_choice evs)"
proof -
  assume ev: "events_of (call_openai ep model num_times prompt temperature use_seed) s = evs"
  let ?t = "case temperature of None \<Rightarrow> 0.75 | Some t \<Rightarrow> t"
  let ?u = "case use_seed of None \<Rightarrow> False | Some b \<Rightarrow> b"
  from call_openai_loop_answers [of ep model "nat num_times" prompt ?t ?u s] obtain evs' where
    tr: "trace (snd (call_openai_loop ep model (nat num_times) prompt ?t ?u s)) = trace s @ evs'"
    and ne: "0 < nat num_times \<longrightarrow> requests evs' \<noteq> []"
    and ok: "fst (call_openai_loop ep model (nat num_times) prompt ?t ?u s) = Inr ()
               \<longleftrightarrow> list_all answered_with_choice evs'"
    by (elim exE conjE)
  from tr have "events_of (call_openai ep model num_times prompt temperature use_seed) s = evs'"
    by (simp add: events_of_def call_openai_def)
  with ev have same: "evs' = evs" by simp
  from ne same have 1: "0 < num_times \<longrightarrow> requests evs \<noteq> []"
    by simp
  from ok same have 2: "fst (call_openai ep model num_times prompt temperature use_seed s) = Inr ()
        \<longleftrightarrow> list_all answered_with_choice evs"
    by (simp add: call_openai_def)
  from 1 2 show ?thesis by (rule conjI)
qed

lemma call_openai_loop_answered:
  assumes "\<forall>w. \<exists>response. fst (ep (loop_kwargs model prompt temperature use_seed) w) = Inr response
                         \<and> choices response \<noteq> []"
  shows "fst (call_openai_loop ep model k prompt temperature use_seed s) = Inr ()"
proof (induction k arbitrary: s)
  case 0
  show ?case by simp
next
  case (Suc k)
  from assms obtain response where
    r: "fst (ep (loop_kwargs model prompt temperature use_seed) (remote s)) = Inr response"
    and c: "choices response \<noteq> []"
    by blast
  then show ?case
    using Suc.IH
    by (cases "choices response") (simp_all add: call_openai_loop_Suc del: call_openai_loop.simps(2))
qed

lemma max_tokens_loop_calls:
  "\<exists>evs. trace (snd (max_tokens_loop ep model penalties s)) = trace s @ evs
     \<and> requests evs = take (length (requests evs)) (map (max_tokens_kwargs model) penalties)
     \<and> length (requests evs) \<le> length penalties
     \<and> (penalties \<noteq> [] \<longrightarrow> requests evs \<noteq> [])
     \<and> (fst (max_tokens_loop ep model penalties s) = Inr ()
          \<longrightarrow> requests evs = map (max_tokens_kwargs model) penalties)"
proof (induction penalties arbitrary: s)
  case Nil
  show ?case by simp
next
  case (Cons penalty penalties)
  let ?kw = "max_tokens_kwargs model penalty"
  let ?s0 = "print (PrintMaxTokens penalty) s"
  let ?r = "fst (ep ?kw (remote ?s0))"
  let ?s1 = "(?s0) \<lparr>remote := snd (ep ?kw (remote ?s0)), trace := trace ?s0 @ [Issued ?kw, Received ?r]\<rparr>"
  have call: "call_openai_with_max_tokens ep model penalty ?s0 =
      ((case ?r of Inl e \<Rightarrow> Inl (APIError e)
        | Inr response \<Rightarrow>
            (case choices response of [] \<Rightarrow> Inl IndexError | c # _ \<Rightarrow> Inr (content (message c)))), ?s1)"
    by (rule call_openai_with_max_tokens_eq)
  show ?case
  proof (cases "fst (call_openai_with_max_tokens ep model penalty ?s0)")
    case (Inl e)
    then have "max_tokens_loop ep model (penalty # penalties) s = (Inl e, ?s1)"
      using call by simp
    then show ?thesis
      by (intro exI [of _ "[Issued ?kw, Received ?r]"]) (simp add: print_def)
  next
    case (Inr answer)
    let ?s2 = "print PrintRule (print (PrintText answer) ?s1)"
    have step: "max_tokens_loop ep model (penalty # penalties) s = max_tokens_loop ep model penalties ?s2"
      using call Inr by simp
    from Cons.IH [of ?s2] obtain evs where
      tr: "trace (snd (max_tokens_loop ep model penalties ?s2)) = trace ?s2 @ evs"
      and pre: "requests evs = take (length (requests evs)) (map (max_tokens_kwargs model) penalties)"
      and len: "length (requests evs) \<le> length penalties"
      and full: "fst (max_tokens_loop ep model penalties ?s2) = Inr ()
                   \<longrightarrow> requests evs = map (max_tokens_kwargs model) penalties"
      by (elim exE conjE)
    let ?evs = "[Issued ?kw, Received ?r] @ evs"
    have 1: "trace (snd (max_tokens_loop ep model (penalty # penalties) s)) = trace s @ ?evs"
      using tr step by (simp add: print_def)
    have 2: "requests ?evs =
               take (length (requests ?evs)) (map (max_tokens_kwargs model) (penalty # penalties))"
      using pre by simp
    have 3: "length (requests ?evs) \<le> length (penalty # penalties)"
      using len by simp
    have 4: "penalty # penalties \<noteq> [] \<longrightarrow> requests ?evs \<noteq> []"
      by simp
    have 5: "fst (max_tokens_loop ep model (penalty # penalties) s) = Inr ()
               \<longrightarrow> requests ?evs = map (max_tokens_kwargs model) (penalty # penalties)"
      using full step by simp
    from 1 2 3 4 5 show ?thesis by (intro exI [of _ ?evs] conjI)
  qed
qed

lemma presence_penalty_loop_calls:
  "\<exists>evs. trace (snd (presence_penalty_loop ep model penalties s)) = trace s @ evs
     \<and> requests evs = take (length (requests evs)) (map (presence_penalty_kwargs model) penalties)
     \<and> length (requests evs) \<le> length penalties
     \<and> (penalties \<noteq> [] \<longrightarrow> requests evs \<noteq> [])
     \<and> (fst (presence_penalty_loop ep model penalties s) = Inr ()
          \<longrightarrow> requests evs = map (presence_penalty_kwargs model) penalties)"
proof (induction penalties arbitrary: s)
  case Nil
  show ?case by simp
next
  case (Cons penalty penalties)
  let ?kw = "presence_penalty_kwargs model penalty"
  let ?s0 = "print (PrintPresencePenalty penalty) s"
  let ?r = "fst (ep ?kw (remote ?s0))"
  let ?s1 = "(?s0) \<lparr>remote := snd (ep ?kw (remote ?s0)), trace := trace ?s0 @ [Issued ?kw, Received ?r]\<rparr>"
  have call: "call_openai_with_presence_penalty ep model penalty ?s0 =
      ((case ?r of Inl e \<Rightarrow> Inl (APIError e)
        | Inr response \<Rightarrow>
            (case choices response of [] \<Rightarrow> Inl IndexError | c # _ \<Rightarrow> Inr (content (message c)))), ?s1)"
    by (rule call_openai_with_presence_penalty_eq)
  show ?case
  proof (cases "fst (call_openai_with_presence_penalty ep model penalty ?s0)")
    case (Inl e)
    then have "presence_penalty_loop ep model (penalty # penalties) s = (Inl e, ?s1)"
      using call by simp
    then show ?thesis
      by (intro exI [of _ "[Issued ?kw, Received ?r]"]) (simp add: print_def)
  next
    case (Inr answer)
    let ?s2 = "print PrintRule (print (PrintText answer) ?s1)"
    have step: "presence_penalty_loop ep model (penalty # penalties) s =
                presence_penalty_loop ep model penalties ?s2"
      using call Inr by simp
    from Cons.IH [of ?s2] obtain evs where
      tr: "trace (snd (presence_penalty_loop ep model penalties ?s2)) = trace ?s2 @ evs"
      and pre: "requests evs = take (length (requests evs)) (map (presence_penalty_kwargs model) penalties)"
      and len: "length (requests evs) \<le> length penalties"
      and full: "fst (presence_penalty_loop ep model penalties ?s2) = Inr ()
                   \<longrightarrow> requests evs = map (presence_penalty_kwargs model) penalties"
      by (elim exE conjE)
    let ?evs = "[Issued ?kw, Received ?r] @ evs"
    have 1: "trace (snd (presence_penalty_loop ep model (penalty # penalties) s)) = trace s @ ?evs"
      using tr step by (simp add: print_def)
    have 2: "requests ?evs =
               take (length (requests ?evs)) (map (presence_penalty_kwargs model) (penalty # penalties))"
      using pre by simp
    have 3: "length (requests ?evs) \<le> length (penalty # penalties)"
      using len by simp
    have 4: "penalty # penalties \<noteq> [] \<longrightarrow> requests ?evs \<noteq> []"
      by simp
    have 5: "fst (presence_penalty_loop ep model (penalty # penalties) s) = Inr ()
               \<longrightarrow> requests ?evs = map (presence_penalty_kwargs model) (penalty # penalties)"
      using full step by simp
    from 1 2 3 4 5 show ?thesis by (intro exI [of _ ?evs] conjI)
  qed
qed

lemma and_then_calls:
  assumes f: "\<And>s. \<exists>evs. trace (snd (f s)) = trace s @ evs
                \<and> requests evs = take (length (requests evs)) A
                \<and> length (requests evs) \<le> length A
                \<and> (A \<noteq> [] \<longrightarrow> requests evs \<noteq> [])
                \<and> (fst (f s) = Inr () \<longrightarrow> requests evs = A)"
      and g: "\<And>s. \<exists>evs. trace (snd (g s)) = trace s @ evs
                \<and> requests evs = take (length (requests evs)) B
                \<and> length (requests evs) \<le> length B
                \<and> (B \<noteq> [] \<longrightarrow> requests evs \<noteq> [])
                \<and> (fst (g s) = Inr () \<longrightarrow> requests evs = B)"
      and A: "A \<noteq> []"
  shows "\<exists>evs. trace (snd (and_then f g s)) = trace s @ evs
           \<and> requests evs = take (length (requests evs)) (A @ B)
           \<and> length (requests evs) \<le> length (A @ B)
           \<and> (A @ B \<noteq> [] \<longrightarrow> requests evs \<noteq> [])
           \<and> (fst (and_then f g s) = Inr () \<longrightarrow> requests evs = A @ B)"
proof -
  from f [of s] obtain evs1 where
    t1: "trace (snd (f s)) = trace s @ evs1"
    and p1: "requests evs1 = take (length (requests evs1)) A"
    and l1: "length (requests evs1) \<le> length A"
    and n1: "A \<noteq> [] \<longrightarrow> requests evs1 \<noteq> []"
    and f1: "fst (f s) = Inr () \<longrightarrow> requests evs1 = A"
    by (elim exE conjE)
  show ?thesis
  proof (cases "fst (f s)")
    case (Inl e)
    then have eq: "and_then f g s = (Inl e, snd (f s))"
      by (cases "f s") (simp add: and_then_def)
    have a: "trace (snd (and_then f g s)) = trace s @ evs1"
      using eq t1 by simp
    have b: "requests evs1 = take (length (requests evs1)) (A @ B)"
      using p1 l1 by simp
    have c: "length (requests evs1) \<le> length (A @ B)"
      using l1 by simp
    have d: "A @ B \<noteq> [] \<longrightarrow> requests evs1 \<noteq> []"
      using n1 A by simp
    have e: "fst (and_then f g s) = Inr () \<longrightarrow> requests evs1 = A @ B"
      using eq by simp
    from a b c d e show ?thesis by (intro exI [of _ evs1] conjI)
  next
    case (Inr u)
    then have eq: "and_then f g s = g (snd (f s))"
      by (cases "f s") (simp add: and_then_def)
    from Inr f1 have all1: "requests evs1 = A" by simp
    from g [of "snd (f s)"] obtain evs2 where
      t2: "trace (snd (g (snd (f s)))) = trace (snd (f s)) @ evs2"
      and p2: "requests evs2 = take (length (requests evs2)) B"
      and l2: "length (requests evs2) \<le> length B"
      and f2: "fst (g (snd (f s))) = Inr () \<longrightarrow> requests evs2 = B"
      by (elim exE conjE)
    let ?evs = "evs1 @ evs2"
    have a: "trace (snd (and_then f g s)) = trace s @ ?evs"
      using eq t1 t2 by simp
    have "take (length (requests ?evs)) (A @ B) = A @ take (length (requests evs2)) B"
      using all1 by (simp add: requests_append)
    then have b: "requests ?evs = take (length (requests ?evs)) (A @ B)"
      using all1 p2 by (simp add: requests_append)
    have c: "length (requests ?evs) \<le> length (A @ B)"
      using all1 l2 by (simp add: requests_append)
    have d: "A @ B \<noteq> [] \<longrightarrow> requests ?evs \<noteq> []"
      using all1 A by (simp add: requests_append)
    have e: "fst (and_then f g s) = Inr () \<longrightarrow> requests ?evs = A @ B"
      using eq f2 all1 by (simp add: requests_append)
    from a b c d e show ?thesis by (intro exI [of _ ?evs] conjI)
  qed
qed

lemma call_openai_cell_calls:
  assumes "0 < num_times"
  shows "\<exists>evs. trace (snd (call_openai ep model num_times prompt temperature use_seed s)) = trace s @ evs
     \<and> requests evs = take (length (requests evs))
          (replicate (nat num_times)
             (loop_kwargs model prompt (case temperature of None \<Rightarrow> 0.75 | Some t \<Rightarrow> t)
                (case use_seed of None \<Rightarrow> False | Some b \<Rightarrow> b)))
     \<and> length (requests evs) \<le> length
          (replicate (nat num_times)
             (loop_kwargs model prompt (case temperature of None \<Rightarrow> 0.75 | Some t \<Rightarrow> t)
                (case use_seed of None \<Rightarrow> False | Some b \<Rightarrow> b)))
     \<and> (replicate (nat num_times)
             (loop_kwargs model prompt (case temperature of None \<Rightarrow> 0.75 | Some t \<Rightarrow> t)
                (case use_seed of None \<Rightarrow> False | Some b \<Rightarrow> b)) \<noteq> [] \<longrightarrow> requests evs \<noteq> [])
     \<and> (fst (call_openai ep model num_times prompt temperature use_seed s) = Inr ()
          \<longrightarrow> requests evs =
              replicate (nat num_times)
                (loop_kwargs model prompt (case temperature of None \<Rightarrow> 0.75 | Some t \<Rightarrow> t)
                   (case use_seed of None \<Rightarrow> False | Some b \<Rightarrow> b)))"
proof -
  let ?kw = "loop_kwargs model prompt (case temperature of None \<Rightarrow> 0.75 | Some t \<Rightarrow> t)
               (case use_seed of None \<Rightarrow> False | Some b \<Rightarrow> b)"
  from call_openai_run [of ep model num_times prompt temperature use_seed s] obtain evs where
    tr: "trace (snd (call_openai ep model num_times prompt temperature use_seed s)) = trace s @ evs"
    and ev: "events_of (call_openai ep model num_times prompt temperature use_seed) s = evs"
    and sub: "set (requests evs) \<subseteq> {?kw}"
    and len: "length (requests evs) \<le> nat num_times"
    and full: "fst (call_openai ep model num_times prompt temperature use_seed s) = Inr ()
          \<longrightarrow> length (requests evs) = nat num_times"
    by (elim exE conjE)
  from sub have rep: "requests evs = replicate (length (requests evs)) ?kw"
    by (rule replicate_of_singleton_set)
  from call_openai_answers [OF ev] assms have ne: "requests evs \<noteq> []"
    by simp
  have 2: "requests evs = take (length (requests evs)) (replicate (nat num_times) ?kw)"
  proof -
    have "take (length (requests evs)) (replicate (nat num_times) ?kw) =
            replicate (length (requests evs)) ?kw"
      using len by (simp add: min_def)
    with rep show ?thesis by simp
  qed
  have 3: "length (requests evs) \<le> length (replicate (nat num_times) ?kw)"
    using len by simp
  have 4: "replicate (nat num_times) ?kw \<noteq> [] \<longrightarrow> requests evs \<noteq> []"
    using ne by simp
  have 5: "fst (call_openai ep model num_times prompt temperature use_seed s) = Inr ()
          \<longrightarrow> requests evs = replicate (nat num_times) ?kw"
  proof
    assume "fst (call_openai ep model num_times prompt temperature use_seed s) = Inr ()"
    with full have "length (requests evs) = nat num_times" by simp
    with rep show "requests evs = replicate (nat num_times) ?kw" by simp
  qed
  from tr 2 3 4 5 show ?thesis by (intro exI [of _ evs] conjI)
qed

lemma n_cell_calls:
  "\<exists>evs. trace (snd (n_cell ep model s)) = trace s @ evs
     \<and> requests evs = take (length (requests evs)) [n_kwargs model]
     \<and> length (requests evs) \<le> length [n_kwargs model]
     \<and> ([n_kwargs model] \<noteq> [] \<longrightarrow> requests evs \<noteq> [])
     \<and> (fst (n_cell ep model s) = Inr () \<longrightarrow> requests evs = [n_kwargs model])"
  by (intro exI [of _ "[Issued (n_kwargs model), Received (fst (ep (n_kwargs model) (remote s)))]"])
     (simp add: n_cell_eq)

lemma notebook_calls:
  "\<exists>evs. trace (snd (notebook ep model s)) = trace s @ evs
     \<and> requests evs = take (length (requests evs)) (notebook_requests model)
     \<and> length (requests evs) \<le> length (notebook_requests model)
     \<and> (notebook_requests model \<noteq> [] \<longrightarrow> requests evs \<noteq> [])
     \<and> (fst (notebook ep model s) = Inr () \<longrightarrow> requests evs = notebook_requests model)"
proof -
  have c1: "\<exists>evs. trace (snd (max_tokens_cell ep model s)) = trace s @ evs
     \<and> requests evs = take (length (requests evs)) (map (max_tokens_kwargs model) [16, 32, 60, 100])
     \<and> length (requests evs) \<le> length (map (max_tokens_kwargs model) [16, 32, 60, 100])
     \<and> (map (max_tokens_kwargs model) [16, 32, 60, 100] \<noteq> [] \<longrightarrow> requests evs \<noteq> [])
     \<and> (fst (max_tokens_cell ep model s) = Inr ()
          \<longrightarrow> requests evs = map (max_tokens_kwargs model) [16, 32, 60, 100])" for s
    using max_tokens_loop_calls [of ep model "[16, 32, 60, 100]" s]
    by (simp add: max_tokens_cell_def)
  have c2: "\<exists>evs. trace (snd (unseeded_cell ep model s)) = trace s @ evs
     \<and> requests evs = take (length (requests evs))
          (replicate 10 (unseeded_kwargs model ''The best pet is a '' 0.75))
     \<and> length (requests evs) \<le> length (replicate 10 (unseeded_kwargs model ''The best pet is a '' 0.75))
     \<and> (replicate 10 (unseeded_kwargs model ''The best pet is a '' 0.75) \<noteq> [] \<longrightarrow> requests evs \<noteq> [])
     \<and> (fst (unseeded_cell ep model s) = Inr ()
          \<longrightarrow> requests evs = replicate 10 (unseeded_kwargs model ''The best pet is a '' 0.75))" for s
    using call_openai_cell_calls [of 10 ep model "''The best pet is a ''" None None s]
    by (simp add: unseeded_cell_def loop_kwargs_def)
  have c3: "\<exists>evs. trace (snd (seeded_cell ep model s)) = trace s @ evs
     \<and> requests evs = take (length (requests evs))
          (replicate 10 (seeded_kwargs model ''The best pet is a '' 0))
     \<and> length (requests evs) \<le> length (replicate 10 (seeded_kwargs model ''The best pet is a '' 0))
     \<and> (replicate 10 (seeded_kwargs model ''The best pet is a '' 0) \<noteq> [] \<longrightarrow> requests evs \<noteq> [])
     \<and> (fst (seeded_cell ep model s) = Inr ()
          \<longrightarrow> requests evs = replicate 10 (seeded_kwargs model ''The best pet is a '' 0))" for s
    using call_openai_cell_calls [of 10 ep model "''The best pet is a ''" "Some 0" "Some True" s]
    by (simp add: seeded_cell_def loop_kwargs_def)
  have c5: "\<exists>evs. trace (snd (presence_penalty_cell ep model s)) = trace s @ evs
     \<and> requests evs = take (length (requests evs))
          (map (presence_penalty_kwargs model) [0, 0.5, 1.0, 1.5, 2.0])
     \<and> length (requests evs) \<le> length (map (presence_penalty_kwargs model) [0, 0.5, 1.0, 1.5, 2.0])
     \<and> (map (presence_penalty_kwargs model) [0, 0.5, 1.0, 1.5, 2.0] \<noteq> [] \<longrightarrow> requests evs \<noteq> [])
     \<and> (fst (presence_penalty_cell ep model s) = Inr ()
          \<longrightarrow> requests evs = map (presence_penalty_kwargs model) [0, 0.5, 1.0, 1.5, 2.0])" for s
    using presence_penalty_loop_calls [of ep model "[0, 0.5, 1.0, 1.5, 2.0]" s]
    by (simp add: presence_penalty_cell_def)
  have c45: "\<exists>evs. trace (snd (and_then (n_cell ep model) (presence_penalty_cell ep model) s)) = trace s @ evs
     \<and> requests evs = take (length (requests evs))
          ([n_kwargs model] @ map (presence_penalty_kwargs model) [0, 0.5, 1.0, 1.5, 2.0])
     \<and> length (requests evs) \<le> length
          ([n_kwargs model] @ map (presence_penalty_kwargs model) [0, 0.5, 1.0, 1.5, 2.0])
     \<and> ([n_kwargs model] @ map (presence_penalty_kwargs model) [0, 0.5, 1.0, 1.5, 2.0] \<noteq> []
          \<longrightarrow> requests evs \<noteq> [])
     \<and> (fst (and_then (n_cell ep model) (presence_penalty_cell ep model) s) = Inr ()
          \<longrightarrow> requests evs =
              [n_kwargs model] @ map (presence_penalty_kwargs model) [0, 0.5, 1.0, 1.5, 2.0])" for s
    by (rule and_then_calls [OF n_cell_calls c5]) simp
  have c345: "\<exists>evs. trace (snd (and_then (seeded_cell ep model)
                 (and_then (n_cell ep model) (presence_penalty_cell ep model)) s)) = trace s @ evs
     \<and> requests evs = take (length (requests evs))
          (replicate 10 (seeded_kwargs model ''The best pet is a '' 0)
           @ [n_kwargs model] @ map (presence_penalty_kwargs model) [0, 0.5, 1.0, 1.5, 2.0])
     \<and> length (requests evs) \<le> length
          (replicate 10 (seeded_kwargs model ''The best pet is a '' 0)
           @ [n_kwargs model] @ map (presence_penalty_kwargs model) [0, 0.5, 1.0, 1.5, 2.0])
     \<and> (replicate 10 (seeded_kwargs model ''The best pet is a '' 0)
           @ [n_kwargs model] @ map (presence_penalty_kwargs model) [0, 0.5, 1.0, 1.5, 2.0] \<noteq> []
          \<longrightarrow> requests evs \<noteq> [])
     \<and> (fst (and_then (seeded_cell ep model)
                 (and_then (n_cell ep model) (presence_penalty_cell ep model)) s) = Inr ()
          \<longrightarrow> requests evs =
              replicate 10 (seeded_kwargs model ''The best pet is a '' 0)
              @ [n_kwargs model] @ map (presence_penalty_kwargs model) [0, 0.5, 1.0, 1.5, 2.0])" for s
    by (rule and_then_calls [OF c3 c45]) simp
  have c2345: "\<exists>evs. trace (snd (and_then (unseeded_cell ep model) (and_then (seeded_cell ep model)
                 (and_then (n_cell ep model) (presence_penalty_cell ep model))) s)) = trace s @ evs
     \<and> requests evs = take (length (requests evs))
          (replicate 10 (unseeded_kwargs model ''The best pet is a '' 0.75)
           @ replicate 10 (seeded_kwargs model ''The best pet is a '' 0)
           @ [n_kwargs model] @ map (presence_penalty_kwargs model) [0, 0.5, 1.0, 1.5, 2.0])
     \<and> length (requests evs) \<le> length
          (replicate 10 (unseeded_kwargs model ''The best pet is a '' 0.75)
           @ replicate 10 (seeded_kwargs model ''The best pet is a '' 0)
           @ [n_kwargs model] @ map (presence_penalty_kwargs model) [0, 0.5, 1.0, 1.5, 2.0])
     \<and> (replicate 10 (unseeded_kwargs model ''The best pet is a '' 0.75)
           @ replicate 10 (seeded_kwargs model ''The best pet is a '' 0)
           @ [n_kwargs model] @ map (presence_penalty_kwargs model) [0, 0.5, 1.0, 1.5, 2.0] \<noteq> []
          \<longrightarrow> requests evs \<noteq> [])
     \<and> (fst (and_then (unseeded_cell ep model) (and_then (seeded_cell ep model)
                 (and_then (n_cell ep model) (presence_penalty_cell ep model))) s) = Inr ()
          \<longrightarrow> requests evs =
              replicate 10 (unseeded_kwargs model ''The best pet is a '' 0.75)
              @ replicate 10 (seeded_kwargs model ''The best pet is a '' 0)
              @ [n_kwargs model] @ map (presence_penalty_kwargs model) [0, 0.5, 1.0, 1.5, 2.0])" for s
    by (rule and_then_calls [OF c2 c345]) simp
  show ?thesis
    unfolding notebook_def notebook_requests_def
    by (rule and_then_calls [OF c1 c2345]) simp
qed

lemma issued_by_notebook_calls:
  "issued_by (notebook ep model) s =
     take (length (issued_by (notebook ep model) s)) (notebook_requests model)"
  "issued_by (notebook ep model) s \<noteq> []"
  "fst (notebook ep model s) = Inr () \<Longrightarrow> issued_by (notebook ep model) s = notebook_requests model"
proof -
  from notebook_calls [of ep model s] obtain evs where
    tr: "trace (snd (notebook ep model s)) = trace s @ evs"
    and pre: "requests evs = take (length (requests evs)) (notebook_requests model)"
    and ne: "notebook_requests model \<noteq> [] \<longrightarrow> requests evs \<noteq> []"
    and full: "fst (notebook ep model s) = Inr () \<longrightarrow> requests evs = notebook_requests model"
    by (elim exE conjE)
  from tr have ev: "issued_by (notebook ep model) s = requests evs"
    by (simp add: issued_by_def events_of_def)
  show "issued_by (notebook ep model) s =
     take (length (issued_by (notebook ep model) s)) (notebook_requests model)"
    using pre ev by simp
  show "issued_by (notebook ep model) s \<noteq> []"
    using ne ev by (simp add: notebook_requests_def)
  show "issued_by (notebook ep model) s = notebook_requests model"
    if "fst (notebook ep model s) = Inr ()"
    using that full ev by simp
qed









section \<open>What the wrappers return\<close>

text \<open>
  C6. Whenever \<open>call_openai_with_max_tokens\<close> or \<open>call_openai_with_presence_penalty\<close>
  succeeds, it returns \<open>choices[0].message.content\<close> of the remote response and nothing
  else: the response has a first choice, the result is that choice's content, and the
  further choices play no part. Conversely a response with a first choice makes the call
  succeed.
\<close>

theorem wrappers_return_first_choice:
  "(fst (call_openai_with_max_tokens ep model max_tokens s) = Inr answer \<longleftrightarrow>
      (\<exists>response c rest.
          fst (ep (max_tokens_kwargs model max_tokens) (remote s)) = Inr response
        \<and> choices response = c # rest \<and> answer = content (message c)))
 \<and> (fst (call_openai_with_presence_penalty ep model presence_penalty s) = Inr answer \<longleftrightarrow>
      (\<exists>response c rest.
          fst (ep (presence_penalty_kwargs model presence_penalty) (remote s)) = Inr response
        \<and> choices response = c # rest \<and> answer = content (message c)))"
  by (auto simp: call_openai_with_max_tokens_eq call_openai_with_presence_penalty_eq
           split: sum.splits list.splits)

theorem wrappers_return_first_choice_witness:
  "fst (call_openai_with_max_tokens (answers [''cat'', ''dog'']) None 16 (start ())) = Inr ''cat''
 \<and> fst (call_openai_with_presence_penalty (answers [''cat'', ''dog'']) None 0.5 (start ())) = Inr ''cat''"
  using wrappers_return_first_choice
    [of "answers [''cat'', ''dog'']" None 16 "start ()" "''cat''" "0.5"]
  by (simp add: answers_def)

section \<open>The messages of every request\<close>

text \<open>
  C7. Every request built by the notebook carries two messages: first the system message
  with the fixed content \<open>You are a helpful assistant.\<close>, then the user message with the
  prompt. Each wrapper and the n cell build exactly one request, with the literal prompt of
  the source; \<open>call_openai\<close> builds one request for every iteration it reaches, at least
  one when \<open>num_times\<close> is positive and \<open>num_times\<close> of them when it returns normally,
  each with the caller's prompt. This holds for every value of the other arguments and for
  every endpoint. A run of the whole notebook builds at least one request, thirty when no
  cell fails, and every one of them has this shape.
\<close>

theorem system_prompt_then_user_prompt:
  "map (\<lambda>p. field p ''messages'') (issued_by (call_openai_with_max_tokens ep model max_tokens) s) =
     [Some (PyMessages [[(''role'', ''system''), (''content'', ''You are a helpful assistant.'')],
                        [(''role'', ''user''), (''content'', ''The best pet is a'')]])]
 \<and> map (\<lambda>p. field p ''messages'')
       (issued_by (call_openai_with_presence_penalty ep model presence_penalty) s) =
     [Some (PyMessages [[(''role'', ''system''), (''content'', ''You are a helpful assistant.'')],
                        [(''role'', ''user''), (''content'', ''The best pet is a'')]])]
 \<and> map (\<lambda>p. field p ''messages'') (issued_by (n_cell ep model) s) =
     [Some (PyMessages [[(''role'', ''system''), (''content'', ''You are a helpful assistant.'')],
                        [(''role'', ''user''), (''content'', ''The best pet is a '')]])]
 \<and> map (\<lambda>p. field p ''messages'')
       (issued_by (call_openai ep model num_times prompt temperature use_seed) s) =
     replicate (length (issued_by (call_openai ep model num_times prompt temperature use_seed) s))
       (Some (PyMessages [[(''role'', ''system''), (''content'', ''You are a helpful assistant.'')],
                          [(''role'', ''user''), (''content'', prompt)]]))
 \<and> (0 < num_times \<longrightarrow>
      issued_by (call_openai ep model num_times prompt temperature use_seed) s \<noteq> [])
 \<and> (fst (call_openai ep model num_times prompt temperature use_seed s) = Inr () \<longrightarrow>
      length (issued_by (call_openai ep model num_times prompt temperature use_seed) s) = nat num_times)
 \<and> issued_by (notebook ep model) s \<noteq> []
 \<and> (\<forall>p \<in> set (issued_by (notebook ep model) s).
      \<exists>user_prompt.
        field p ''messages'' =
          Some (PyMessages [[(''role'', ''system''), (''content'', ''You are a helpful assistant.'')],
                            [(''role'', ''user''), (''content'', user_prompt)]]))
 \<and> (fst (notebook ep model s) = Inr () \<longrightarrow> length (issued_by (notebook ep model) s) = 30)"
proof -
  have 1: "map (\<lambda>p. field p ''messages'') (issued_by (call_openai_with_max_tokens ep model max_tokens) s) =
     [Some (PyMessages [[(''role'', ''system''), (''content'', ''You are a helpful assistant.'')],
                        [(''role'', ''user''), (''content'', ''The best pet is a'')]])]"
    by (simp add: issued_by_max_tokens messages_of_kwargs system_message_def user_message_def)
  have 2: "map (\<lambda>p. field p ''messages'')
       (issued_by (call_openai_with_presence_penalty ep model presence_penalty) s) =
     [Some (PyMessages [[(''role'', ''system''), (''content'', ''You are a helpful assistant.'')],
                        [(''role'', ''user''), (''content'', ''The best pet is a'')]])]"
    by (simp add: issued_by_presence_penalty messages_of_kwargs system_message_def user_message_def)
  have 3: "map (\<lambda>p. field p ''messages'') (issued_by (n_cell ep model) s) =
     [Some (PyMessages [[(''role'', ''system''), (''content'', ''You are a helpful assistant.'')],
                        [(''role'', ''user''), (''content'', ''The best pet is a '')]])]"
    by (simp add: issued_by_n_cell messages_of_kwargs system_message_def user_message_def)
  let ?kw = "loop_kwargs model prompt (case temperature of None \<Rightarrow> 0.75 | Some t \<Rightarrow> t)
               (case use_seed of None \<Rightarrow> False | Some b \<Rightarrow> b)"
  have rep: "issued_by (call_openai ep model num_times prompt temperature use_seed) s =
     replicate (length (issued_by (call_openai ep model num_times prompt temperature use_seed) s)) ?kw"
    by (rule replicate_of_singleton_set) (rule issued_by_call_openai)
  have m: "field ?kw ''messages'' =
       Some (PyMessages [[(''role'', ''system''), (''content'', ''You are a helpful assistant.'')],
                          [(''role'', ''user''), (''content'', prompt)]])"
    by (simp add: loop_kwargs_def messages_of_kwargs system_message_def user_message_def)
  have "map (\<lambda>p. field p ''messages'')
          (replicate (length (issued_by (call_openai ep model num_times prompt temperature use_seed) s)) ?kw) =
     replicate (length (issued_by (call_openai ep model num_times prompt temperature use_seed) s))
       (Some (PyMessages [[(''role'', ''system''), (''content'', ''You are a helpful assistant.'')],
                          [(''role'', ''user''), (''content'', prompt)]]))"
    by (simp only: map_replicate m)
  with rep have 4: "map (\<lambda>p. field p ''messages'')
       (issued_by (call_openai ep model num_times prompt temperature use_seed) s) =
     replicate (length (issued_by (call_openai ep model num_times prompt temperature use_seed) s))
       (Some (PyMessages [[(''role'', ''system''), (''content'', ''You are a helpful assistant.'')],
                          [(''role'', ''user''), (''content'', prompt)]]))"
    by simp
  from call_openai_run [of ep model num_times prompt temperature use_seed s] obtain evs where
    ev: "events_of (call_openai ep model num_times prompt temperature use_seed) s = evs"
    and full: "fst (call_openai ep model num_times prompt temperature use_seed s) = Inr ()
          \<longrightarrow> length (requests evs) = nat num_times"
    by (elim exE conjE)
  have 5: "0 < num_times \<longrightarrow>
      issued_by (call_openai ep model num_times prompt temperature use_seed) s \<noteq> []"
    using call_openai_answers [OF ev] ev by (simp add: issued_by_def)
  have 6: "fst (call_openai ep model num_times prompt temperature use_seed s) = Inr () \<longrightarrow>
      length (issued_by (call_openai ep model num_times prompt temperature use_seed) s) = nat num_times"
    using full ev by (simp add: issued_by_def)
  have 7: "issued_by (notebook ep model) s \<noteq> []"
    by (rule issued_by_notebook_calls)
  have 8: "\<forall>p \<in> set (issued_by (notebook ep model) s).
      \<exists>user_prompt.
        field p ''messages'' =
          Some (PyMessages [[(''role'', ''system''), (''content'', ''You are a helpful assistant.'')],
                            [(''role'', ''user''), (''content'', user_prompt)]])"
  proof (rule ballI)
    fix p assume "p \<in> set (issued_by (notebook ep model) s)"
    with issued_by_notebook [of ep model s]
    have "p \<in> max_tokens_kwargs model ` {16, 32, 60, 100}
       \<union> ({unseeded_kwargs model ''The best pet is a '' 0.75}
       \<union> ({seeded_kwargs model ''The best pet is a '' 0}
       \<union> ({n_kwargs model}
       \<union> presence_penalty_kwargs model ` {0, 0.5, 1, 1.5, 2})))"
      by blast
    then consider (a) mt where "p = max_tokens_kwargs model mt"
      | (b) "p = unseeded_kwargs model ''The best pet is a '' 0.75"
      | (c) "p = seeded_kwargs model ''The best pet is a '' 0"
      | (d) "p = n_kwargs model"
      | (e) pp where "p = presence_penalty_kwargs model pp"
      by blast
    then show "\<exists>user_prompt.
        field p ''messages'' =
          Some (PyMessages [[(''role'', ''system''), (''content'', ''You are a helpful assistant.'')],
                            [(''role'', ''user''), (''content'', user_prompt)]])"
      by cases (simp_all add: messages_of_kwargs system_message_def user_message_def)
  qed
  have 9: "fst (notebook ep model s) = Inr () \<longrightarrow> length (issued_by (notebook ep model) s) = 30"
  proof
    assume "fst (notebook ep model s) = Inr ()"
    then have "issued_by (notebook ep model) s = notebook_requests model"
      by (rule issued_by_notebook_calls)
    then show "length (issued_by (notebook ep model) s) = 30"
      by (simp add: notebook_requests_def)
  qed
  from 1 2 3 4 5 6 7 8 9 show ?thesis by (intro conjI)
qed

theorem system_prompt_then_user_prompt_witness:
  "issued_by (call_openai_with_max_tokens (answers [''cat'']) (Some ''gpt'') 16) (start ()) =
     [max_tokens_kwargs (Some ''gpt'') 16]
 \<and> field (max_tokens_kwargs (Some ''gpt'') 16) ''messages'' =
     Some (PyMessages [[(''role'', ''system''), (''content'', ''You are a helpful assistant.'')],
                       [(''role'', ''user''), (''content'', ''The best pet is a'')]])
 \<and> fst (call_openai (answers [''cat'']) (Some ''gpt'') 2 ''hello'' None (Some True) (start ())) = Inr ()
 \<and> length (issued_by (call_openai (answers [''cat'']) (Some ''gpt'') 2 ''hello'' None (Some True)) (start ())) = 2
 \<and> map (\<lambda>p. field p ''messages'')
       (issued_by (call_openai (answers [''cat'']) (Some ''gpt'') 2 ''hello'' None (Some True)) (start ())) =
     [Some (PyMessages [[(''role'', ''system''), (''content'', ''You are a helpful assistant.'')],
                        [(''role'', ''user''), (''content'', ''hello'')]]),
      Some (PyMessages [[(''role'', ''system''), (''content'', ''You are a helpful assistant.'')],
                        [(''role'', ''user''), (''content'', ''hello'')]])]"
proof -
  note inst = system_prompt_then_user_prompt
         [of "answers [''cat'']" "Some ''gpt''" 16 "start ()" 0 2 "''hello''" None "Some True"]
  have run: "issued_by (call_openai_with_max_tokens (answers [''cat'']) (Some ''gpt'') 16) (start ()) =
     [max_tokens_kwargs (Some ''gpt'') 16]"
    by (simp add: issued_by_def events_of_def call_openai_with_max_tokens_eq)
  from inst have "map (\<lambda>p. field p ''messages'')
        (issued_by (call_openai_with_max_tokens (answers [''cat'']) (Some ''gpt'') 16) (start ())) =
     [Some (PyMessages [[(''role'', ''system''), (''content'', ''You are a helpful assistant.'')],
                        [(''role'', ''user''), (''content'', ''The best pet is a'')]])]"
    by (elim conjE)
  with run have a: "field (max_tokens_kwargs (Some ''gpt'') 16) ''messages'' =
     Some (PyMessages [[(''role'', ''system''), (''content'', ''You are a helpful assistant.'')],
                       [(''role'', ''user''), (''content'', ''The best pet is a'')]])"
    by simp
  have ok: "fst (call_openai (answers [''cat'']) (Some ''gpt'') 2 ''hello'' None (Some True) (start ())) = Inr ()"
    by (simp add: call_openai_def numeral_2_eq_2 create_eq answers_def start_def print_def)
  from inst have "fst (call_openai (answers [''cat'']) (Some ''gpt'') 2 ''hello'' None (Some True) (start ())) = Inr () \<longrightarrow>
      length (issued_by (call_openai (answers [''cat'']) (Some ''gpt'') 2 ''hello'' None (Some True)) (start ())) = nat 2"
    by (elim conjE)
  with ok have len:
    "length (issued_by (call_openai (answers [''cat'']) (Some ''gpt'') 2 ''hello'' None (Some True)) (start ())) = 2"
    by simp
  from inst have "map (\<lambda>p. field p ''messages'')
       (issued_by (call_openai (answers [''cat'']) (Some ''gpt'') 2 ''hello'' None (Some True)) (start ())) =
     replicate (length (issued_by (call_openai (answers [''cat'']) (Some ''gpt'') 2 ''hello'' None (Some True)) (start ())))
       (Some (PyMessages [[(''role'', ''system''), (''content'', ''You are a helpful assistant.'')],
                          [(''role'', ''user''), (''content'', ''hello'')]]))"
    by (elim conjE)
  with len have m: "map (\<lambda>p. field p ''messages'')
       (issued_by (call_openai (answers [''cat'']) (Some ''gpt'') 2 ''hello'' None (Some True)) (start ())) =
     [Some (PyMessages [[(''role'', ''system''), (''content'', ''You are a helpful assistant.'')],
                        [(''role'', ''user''), (''content'', ''hello'')]]),
      Some (PyMessages [[(''role'', ''system''), (''content'', ''You are a helpful assistant.'')],
                        [(''role'', ''user''), (''content'', ''hello'')]])]"
    by (simp add: numeral_2_eq_2)
  from run a ok len m show ?thesis by (intro conjI)
qed

section \<open>The fields no request carries\<close>

text \<open>
  C10. No request of the notebook carries \<open>frequency_penalty\<close>, \<open>top_p\<close> or \<open>stop\<close>.
  The requests of the two wrappers and of the n cell carry no \<open>seed\<close>; a request of
  \<open>call_openai\<close> carries one (the global 123) exactly when the caller passed
  \<open>use_seed=True\<close>. In a run of the whole notebook the only requests with a seed are
  those of the cell that calls \<open>call_openai\<close> with \<open>use_seed=True\<close>.
\<close>

theorem fields_never_sent:
  "(\<forall>p \<in> set (issued_by (call_openai_with_max_tokens ep model max_tokens) s).
      field p ''frequency_penalty'' = None \<and> field p ''top_p'' = None
    \<and> field p ''stop'' = None \<and> field p ''seed'' = None)
 \<and> (\<forall>p \<in> set (issued_by (call_openai ep model num_times prompt temperature use_seed) s).
      field p ''frequency_penalty'' = None \<and> field p ''top_p'' = None
    \<and> field p ''stop'' = None
    \<and> (field p ''seed'' \<noteq> None \<longleftrightarrow> use_seed = Some True)
    \<and> (field p ''seed'' \<noteq> None \<longrightarrow> field p ''seed'' = Some (PyInt 123)))
 \<and> (\<forall>p \<in> set (issued_by (n_cell ep model) s).
      field p ''frequency_penalty'' = None \<and> field p ''top_p'' = None
    \<and> field p ''stop'' = None \<and> field p ''seed'' = None)
 \<and> (\<forall>p \<in> set (issued_by (call_openai_with_presence_penalty ep model presence_penalty) s).
      field p ''frequency_penalty'' = None \<and> field p ''top_p'' = None
    \<and> field p ''stop'' = None \<and> field p ''seed'' = None)
 \<and> (\<forall>p \<in> set (issued_by (notebook ep model) s).
      field p ''frequency_penalty'' = None \<and> field p ''top_p'' = None
    \<and> field p ''stop'' = None
    \<and> (field p ''seed'' \<noteq> None \<longrightarrow> p = seeded_kwargs model ''The best pet is a '' 0))"
proof -
  have a: "\<forall>p \<in> set (issued_by (call_openai_with_max_tokens ep model max_tokens) s).
      field p ''frequency_penalty'' = None \<and> field p ''top_p'' = None
    \<and> field p ''stop'' = None \<and> field p ''seed'' = None"
    by (simp add: issued_by_max_tokens absent_fields)
  have b: "\<forall>p \<in> set (issued_by (call_openai ep model num_times prompt temperature use_seed) s).
      field p ''frequency_penalty'' = None \<and> field p ''top_p'' = None
    \<and> field p ''stop'' = None
    \<and> (field p ''seed'' \<noteq> None \<longleftrightarrow> use_seed = Some True)
    \<and> (field p ''seed'' \<noteq> None \<longrightarrow> field p ''seed'' = Some (PyInt 123))"
  proof (rule ballI)
    fix p assume "p \<in> set (issued_by (call_openai ep model num_times prompt temperature use_seed) s)"
    with issued_by_call_openai [of ep model num_times prompt temperature use_seed s]
    have p: "p = loop_kwargs model prompt (case temperature of None \<Rightarrow> 0.75 | Some t \<Rightarrow> t)
                (case use_seed of None \<Rightarrow> False | Some b \<Rightarrow> b)"
      by blast
    show "field p ''frequency_penalty'' = None \<and> field p ''top_p'' = None
      \<and> field p ''stop'' = None
      \<and> (field p ''seed'' \<noteq> None \<longleftrightarrow> use_seed = Some True)
      \<and> (field p ''seed'' \<noteq> None \<longrightarrow> field p ''seed'' = Some (PyInt 123))"
    proof (cases "use_seed = Some True")
      case True
      with p show ?thesis
        by (simp add: loop_kwargs_def absent_fields seed_of_seeded_kwargs)
    next
      case False
      then have "(case use_seed of None \<Rightarrow> False | Some b \<Rightarrow> b) = False"
        by (cases use_seed) auto
      with p False show ?thesis
        by (simp add: loop_kwargs_def absent_fields)
    qed
  qed
  have c: "\<forall>p \<in> set (issued_by (n_cell ep model) s).
      field p ''frequency_penalty'' = None \<and> field p ''top_p'' = None
    \<and> field p ''stop'' = None \<and> field p ''seed'' = None"
    by (simp add: issued_by_n_cell absent_fields)
  have d: "\<forall>p \<in> set (issued_by (call_openai_with_presence_penalty ep model presence_penalty) s).
      field p ''frequency_penalty'' = None \<and> field p ''top_p'' = None
    \<and> field p ''stop'' = None \<and> field p ''seed'' = None"
    by (simp add: issued_by_presence_penalty absent_fields)
  have e: "\<forall>p \<in> set (issued_by (notebook ep model) s).
      field p ''frequency_penalty'' = None \<and> field p ''top_p'' = None
    \<and> field p ''stop'' = None
    \<and> (field p ''seed'' \<noteq> None \<longrightarrow> p = seeded_kwargs model ''The best pet is a '' 0)"
  proof (rule ballI)
    fix p assume "p \<in> set (issued_by (notebook ep model) s)"
    with issued_by_notebook [of ep model s]
    have "p \<in> max_tokens_kwargs model ` {16, 32, 60, 100}
       \<union> ({unseeded_kwargs model ''The best pet is a '' 0.75}
       \<union> ({seeded_kwargs model ''The best pet is a '' 0}
       \<union> ({n_kwargs model}
       \<union> presence_penalty_kwargs model ` {0, 0.5, 1, 1.5, 2})))"
      by blast
    then consider (a) mt where "p = max_tokens_kwargs model mt"
      | (b) "p = unseeded_kwargs model ''The best pet is a '' 0.75"
      | (c) "p = seeded_kwargs model ''The best pet is a '' 0"
      | (d) "p = n_kwargs model"
      | (e) pp where "p = presence_penalty_kwargs model pp"
      by blast
    then show "field p ''frequency_penalty'' = None \<and> field p ''top_p'' = None
      \<and> field p ''stop'' = None
      \<and> (field p ''seed'' \<noteq> None \<longrightarrow> p = seeded_kwargs model ''The best pet is a '' 0)"
      by cases (simp_all add: absent_fields)
  qed
  from a b c d e show ?thesis by (intro conjI)
qed

theorem fields_never_sent_witness:
  "issued_by (call_openai (answers [''cat'']) None 1 ''hello'' (Some 0) (Some True)) (start ()) =
     [seeded_kwargs None ''hello'' 0]
 \<and> field (seeded_kwargs None ''hello'' 0) ''frequency_penalty'' = None
 \<and> field (seeded_kwargs None ''hello'' 0) ''top_p'' = None
 \<and> field (seeded_kwargs None ''hello'' 0) ''stop'' = None
 \<and> field (seeded_kwargs None ''hello'' 0) ''seed'' = Some (PyInt 123)
 \<and> issued_by (call_openai (answers [''cat'']) None 1 ''hello'' (Some 0) None) (start ()) =
     [unseeded_kwargs None ''hello'' 0]
 \<and> field (unseeded_kwargs None ''hello'' 0) ''seed'' = None"
proof -
  have run: "issued_by (call_openai (answers [''cat'']) None 1 ''hello'' (Some 0) (Some True)) (start ()) =
     [seeded_kwargs None ''hello'' 0]"
    by (simp add: issued_by_def events_of_def call_openai_def create_eq
          answers_def start_def print_def)
  have run': "issued_by (call_openai (answers [''cat'']) None 1 ''hello'' (Some 0) None) (start ()) =
     [unseeded_kwargs None ''hello'' 0]"
    by (simp add: issued_by_def events_of_def call_openai_def create_eq
          answers_def start_def print_def)
  from fields_never_sent
         [of "answers [''cat'']" None 0 "start ()" 1 "''hello''" "Some 0" "Some True" 0]
  have "\<forall>p \<in> set (issued_by (call_openai (answers [''cat'']) None 1 ''hello'' (Some 0) (Some True)) (start ())).
      field p ''frequency_penalty'' = None \<and> field p ''top_p'' = None
    \<and> field p ''stop'' = None
    \<and> (field p ''seed'' \<noteq> None \<longleftrightarrow> Some True = Some True)
    \<and> (field p ''seed'' \<noteq> None \<longrightarrow> field p ''seed'' = Some (PyInt 123))"
    by blast
  with run have seeded:
    "field (seeded_kwargs None ''hello'' 0) ''frequency_penalty'' = None
   \<and> field (seeded_kwargs None ''hello'' 0) ''top_p'' = None
   \<and> field (seeded_kwargs None ''hello'' 0) ''stop'' = None
   \<and> field (seeded_kwargs None ''hello'' 0) ''seed'' = Some (PyInt 123)"
    by simp
  from fields_never_sent
         [of "answers [''cat'']" None 0 "start ()" 1 "''hello''" "Some 0" None 0]
  have "\<forall>p \<in> set (issued_by (call_openai (answers [''cat'']) None 1 ''hello'' (Some 0) None) (start ())).
      (field p ''seed'' \<noteq> None \<longleftrightarrow> (None :: bool option) = Some True)"
    by blast
  with run' have "field (unseeded_kwargs None ''hello'' 0) ''seed'' = None"
    by simp
  with run run' seeded show ?thesis by simp
qed

section \<open>One call at a time\<close>




section \<open>The completions of the n cell\<close>

text \<open>
  C1, as amended. The n cell sends \<open>n=2\<close> and prints one entry for every choice of the
  remote response, in the order of the response: entry \<open>i\<close> is the index \<open>i\<close> with
  the content of choice \<open>i\<close>. It prints exactly \<open>k\<close> entries whenever the response
  carries \<open>k\<close> choices; the cell does not compare that number with the \<open>n\<close> it sent.
\<close>

theorem n_cell_prints_every_choice_in_order:
  assumes "fst (ep (n_kwargs model) (remote s)) = Inr response"
      and "length (choices response) = k"
  shows "field (n_kwargs model) ''n'' = Some (PyInt 2)
       \<and> issued_by (n_cell ep model) s = [n_kwargs model]
       \<and> fst (n_cell ep model s) = Inr ()
       \<and> length (printed_by (n_cell ep model) s) = k
       \<and> (\<forall>i<k. printed_by (n_cell ep model) s ! i =
                   PrintIndexed i (content (message (choices response ! i))))"
  using assms
  by (simp add: printed_by_n_cell length_print_choices nth_print_choices issued_by_n_cell
        n_cell_eq field_def n_kwargs_def)

theorem n_cell_prints_every_choice_in_order_witness:
  "fst (answers [''cat'', ''dog''] (n_kwargs None) (remote (start ()))) =
     Inr (ChatCompletion [Choice (ChatMessage ''cat''), Choice (ChatMessage ''dog'')])
 \<and> length (printed_by (n_cell (answers [''cat'', ''dog'']) None) (start ())) = 2
 \<and> printed_by (n_cell (answers [''cat'', ''dog'']) None) (start ()) ! 0 = PrintIndexed 0 ''cat''
 \<and> printed_by (n_cell (answers [''cat'', ''dog'']) None) (start ()) ! 1 = PrintIndexed 1 ''dog''"
proof -
  have a: "fst (answers [''cat'', ''dog''] (n_kwargs None) (remote (start ()))) =
     Inr (ChatCompletion [Choice (ChatMessage ''cat''), Choice (ChatMessage ''dog'')])"
    by (simp add: answers_def)
  have b: "length (choices (ChatCompletion [Choice (ChatMessage ''cat''), Choice (ChatMessage ''dog'')])) = 2"
    by simp
  from n_cell_prints_every_choice_in_order
         [of "answers [''cat'', ''dog'']" None "start ()"
             "ChatCompletion [Choice (ChatMessage ''cat''), Choice (ChatMessage ''dog'')]" 2, OF a b]
  have len: "length (printed_by (n_cell (answers [''cat'', ''dog'']) None) (start ())) = 2"
    and nth: "\<forall>i<2. printed_by (n_cell (answers [''cat'', ''dog'']) None) (start ()) ! i =
                PrintIndexed i (content (message
                  (choices (ChatCompletion [Choice (ChatMessage ''cat''), Choice (ChatMessage ''dog'')]) ! i)))"
    by blast+
  from nth have "printed_by (n_cell (answers [''cat'', ''dog'']) None) (start ()) ! 0 = PrintIndexed 0 ''cat''"
    by auto
  moreover from nth have "printed_by (n_cell (answers [''cat'', ''dog'']) None) (start ()) ! 1 = PrintIndexed 1 ''dog''"
    by auto
  ultimately show ?thesis using a len by simp
qed

theorem n_cell_count_counterexample:
  "field (n_kwargs None) ''n'' = Some (PyInt 2)
 \<and> issued_by (n_cell (answers [''cat'']) None) (start ()) = [n_kwargs None]
 \<and> fst (n_cell (answers [''cat'']) None (start ())) = Inr ()
 \<and> printed_by (n_cell (answers [''cat'']) None) (start ()) = [PrintIndexed 0 ''cat'']
 \<and> length (printed_by (n_cell (answers [''cat'']) None) (start ())) \<noteq> 2"
  by (simp add: printed_by_n_cell issued_by_n_cell n_cell_eq answers_def print_choices_def
        field_def n_kwargs_def)

section \<open>Failures\<close>




section \<open>The defaults of call\_openai\<close>

text \<open>
  C5, as amended. A call of \<open>call_openai\<close> that leaves out \<open>temperature\<close> and
  \<open>use_seed\<close> issues one request for every iteration it reaches, each with
  \<open>max_tokens=60\<close> and \<open>temperature=0.75\<close> and with neither \<open>seed\<close>, \<open>n\<close>,
  \<open>presence_penalty\<close>, \<open>frequency_penalty\<close> nor \<open>top_p\<close>: only \<open>n\<close> and the two
  penalties are left to the documented defaults 1, 0 and 0. The call returns normally
  exactly when every answer it receives carries at least one choice, hence whenever the
  remote answers this one request so. No request of the notebook leaves out
  \<open>max_tokens\<close>.
\<close>

theorem call_openai_own_defaults:
  "issued_by (call_openai ep model num_times prompt None None) s =
     replicate (length (issued_by (call_openai ep model num_times prompt None None) s))
       (unseeded_kwargs model prompt 0.75)
 \<and> (0 < num_times \<longrightarrow> issued_by (call_openai ep model num_times prompt None None) s \<noteq> [])
 \<and> length (issued_by (call_openai ep model num_times prompt None None) s) \<le> nat num_times
 \<and> (fst (call_openai ep model num_times prompt None None s) = Inr () \<longrightarrow>
      length (issued_by (call_openai ep model num_times prompt None None) s) = nat num_times)
 \<and> field (unseeded_kwargs model prompt 0.75) ''max_tokens'' = Some (PyInt 60)
 \<and> field (unseeded_kwargs model prompt 0.75) ''temperature'' = Some (PyFloat 0.75)
 \<and> field (unseeded_kwargs model prompt 0.75) ''seed'' = None
 \<and> field (unseeded_kwargs model prompt 0.75) ''n'' = None
 \<and> field (unseeded_kwargs model prompt 0.75) ''presence_penalty'' = None
 \<and> field (unseeded_kwargs model prompt 0.75) ''frequency_penalty'' = None
 \<and> field (unseeded_kwargs model prompt 0.75) ''top_p'' = None
 \<and> effective (unseeded_kwargs model prompt 0.75) ''max_tokens'' = Some (PyInt 60)
 \<and> effective (unseeded_kwargs model prompt 0.75) ''temperature'' = Some (PyFloat 0.75)
 \<and> effective (unseeded_kwargs model prompt 0.75) ''n'' = Some (PyInt 1)
 \<and> effective (unseeded_kwargs model prompt 0.75) ''presence_penalty'' = Some (PyFloat 0)
 \<and> effective (unseeded_kwargs model prompt 0.75) ''frequency_penalty'' = Some (PyFloat 0)
 \<and> (fst (call_openai ep model num_times prompt None None s) = Inr () \<longleftrightarrow>
      list_all answered_with_choice (events_of (call_openai ep model num_times prompt None None) s))
 \<and> ((\<forall>w. \<exists>response. fst (ep (unseeded_kwargs model prompt 0.75) w) = Inr response
                      \<and> choices response \<noteq> []) \<longrightarrow>
      fst (call_openai ep model num_times prompt None None s) = Inr ())
 \<and> issued_by (notebook ep model) s \<noteq> []
 \<and> (\<forall>p \<in> set (issued_by (notebook ep model) s). field p ''max_tokens'' \<noteq> None)"
proof -
  let ?f = "call_openai ep model num_times prompt None None"
  have 1: "issued_by ?f s = replicate (length (issued_by ?f s)) (unseeded_kwargs model prompt 0.75)"
    by (rule replicate_of_singleton_set) (rule issued_by_call_openai_defaults)
  from call_openai_run [of ep model num_times prompt None None s] obtain evs where
    ev: "events_of ?f s = evs"
    and len: "length (requests evs) \<le> nat num_times"
    and full: "fst (?f s) = Inr () \<longrightarrow> length (requests evs) = nat num_times"
    by (elim exE conjE)
  have 2: "0 < num_times \<longrightarrow> issued_by ?f s \<noteq> []"
    using call_openai_answers [OF ev] ev by (simp add: issued_by_def)
  have 3: "length (issued_by ?f s) \<le> nat num_times"
    using len ev by (simp add: issued_by_def)
  have 4: "fst (?f s) = Inr () \<longrightarrow> length (issued_by ?f s) = nat num_times"
    using full ev by (simp add: issued_by_def)
  have 5: "fst (?f s) = Inr () \<longleftrightarrow> list_all answered_with_choice (events_of ?f s)"
    using call_openai_answers [OF ev] ev by simp
  have 6: "(\<forall>w. \<exists>response. fst (ep (unseeded_kwargs model prompt 0.75) w) = Inr response
                      \<and> choices response \<noteq> []) \<longrightarrow> fst (?f s) = Inr ()"
  proof
    assume "\<forall>w. \<exists>response. fst (ep (unseeded_kwargs model prompt 0.75) w) = Inr response
                      \<and> choices response \<noteq> []"
    then have "\<forall>w. \<exists>response. fst (ep (loop_kwargs model prompt 0.75 False) w) = Inr response
                      \<and> choices response \<noteq> []"
      by (simp add: loop_kwargs_def)
    then show "fst (?f s) = Inr ()"
      by (simp add: call_openai_def call_openai_loop_answered)
  qed
  have 7: "issued_by (notebook ep model) s \<noteq> []"
    by (rule issued_by_notebook_calls)
  have 8: "\<forall>p \<in> set (issued_by (notebook ep model) s). field p ''max_tokens'' \<noteq> None"
  proof (rule ballI)
    fix p assume "p \<in> set (issued_by (notebook ep model) s)"
    with issued_by_notebook [of ep model s]
    have "p \<in> max_tokens_kwargs model ` {16, 32, 60, 100}
       \<union> ({unseeded_kwargs model ''The best pet is a '' 0.75}
       \<union> ({seeded_kwargs model ''The best pet is a '' 0}
       \<union> ({n_kwargs model}
       \<union> presence_penalty_kwargs model ` {0, 0.5, 1, 1.5, 2})))"
      by blast
    then consider (a) mt where "p = max_tokens_kwargs model mt"
      | (b) "p = unseeded_kwargs model ''The best pet is a '' 0.75"
      | (c) "p = seeded_kwargs model ''The best pet is a '' 0"
      | (d) "p = n_kwargs model"
      | (e) pp where "p = presence_penalty_kwargs model pp"
      by blast
    then show "field p ''max_tokens'' \<noteq> None"
      by cases (simp_all add: max_tokens_always_sent unseeded_kwargs_fields)
  qed
  have 9: "field (unseeded_kwargs model prompt 0.75) ''max_tokens'' = Some (PyInt 60)
 \<and> field (unseeded_kwargs model prompt 0.75) ''temperature'' = Some (PyFloat 0.75)
 \<and> field (unseeded_kwargs model prompt 0.75) ''seed'' = None
 \<and> field (unseeded_kwargs model prompt 0.75) ''n'' = None
 \<and> field (unseeded_kwargs model prompt 0.75) ''presence_penalty'' = None
 \<and> field (unseeded_kwargs model prompt 0.75) ''frequency_penalty'' = None
 \<and> field (unseeded_kwargs model prompt 0.75) ''top_p'' = None
 \<and> effective (unseeded_kwargs model prompt 0.75) ''max_tokens'' = Some (PyInt 60)
 \<and> effective (unseeded_kwargs model prompt 0.75) ''temperature'' = Some (PyFloat 0.75)
 \<and> effective (unseeded_kwargs model prompt 0.75) ''n'' = Some (PyInt 1)
 \<and> effective (unseeded_kwargs model prompt 0.75) ''presence_penalty'' = Some (PyFloat 0)
 \<and> effective (unseeded_kwargs model prompt 0.75) ''frequency_penalty'' = Some (PyFloat 0)"
    by (simp add: effective_def documented_default_def unseeded_kwargs_fields absent_fields)
  from 1 2 3 4 9 5 6 7 8 show ?thesis by (elim conjE, intro conjI)
qed

theorem call_openai_own_defaults_witness:
  "issued_by (call_openai enforces_range None 2 ''The best pet is a '' None None) (start ()) =
     [unseeded_kwargs None ''The best pet is a '' 0.75, unseeded_kwargs None ''The best pet is a '' 0.75]
 \<and> fst (call_openai enforces_range None 2 ''The best pet is a '' None None (start ())) = Inr ()"
proof -
  note inst = call_openai_own_defaults [of enforces_range None 2 "''The best pet is a ''" "start ()"]
  have ans: "\<forall>w. \<exists>response.
      fst (enforces_range (unseeded_kwargs None ''The best pet is a '' 0.75) w) = Inr response
    \<and> choices response \<noteq> []"
    by (simp add: enforces_range_def field_def unseeded_kwargs_def)
  from inst have "(\<forall>w. \<exists>response.
      fst (enforces_range (unseeded_kwargs None ''The best pet is a '' 0.75) w) = Inr response
    \<and> choices response \<noteq> []) \<longrightarrow>
      fst (call_openai enforces_range None 2 ''The best pet is a '' None None (start ())) = Inr ()"
    by (elim conjE)
  with ans have ok: "fst (call_openai enforces_range None 2 ''The best pet is a '' None None (start ())) = Inr ()"
    by (rule rev_mp)
  from inst have "fst (call_openai enforces_range None 2 ''The best pet is a '' None None (start ())) = Inr () \<longrightarrow>
      length (issued_by (call_openai enforces_range None 2 ''The best pet is a '' None None) (start ())) = nat 2"
    by (elim conjE)
  with ok have len: "length (issued_by (call_openai enforces_range None 2 ''The best pet is a '' None None) (start ())) = 2"
    by simp
  from inst have "issued_by (call_openai enforces_range None 2 ''The best pet is a '' None None) (start ()) =
     replicate (length (issued_by (call_openai enforces_range None 2 ''The best pet is a '' None None) (start ())))
       (unseeded_kwargs None ''The best pet is a '' 0.75)"
    by (elim conjE)
  with len have "issued_by (call_openai enforces_range None 2 ''The best pet is a '' None None) (start ()) =
     [unseeded_kwargs None ''The best pet is a '' 0.75, unseeded_kwargs None ''The best pet is a '' 0.75]"
    by (simp add: numeral_2_eq_2)
  with ok show ?thesis by (intro conjI)
qed

theorem documented_defaults_counterexample:
  "issued_by (call_openai (answers [''cat'']) None 1 ''The best pet is a '' None None) (start ()) =
     [unseeded_kwargs None ''The best pet is a '' 0.75]
 \<and> documented_default ''max_tokens'' = Some (PyInt 16)
 \<and> documented_default ''temperature'' = Some (PyFloat 1)
 \<and> effective (unseeded_kwargs None ''The best pet is a '' 0.75) ''max_tokens'' \<noteq> Some (PyInt 16)
 \<and> effective (unseeded_kwargs None ''The best pet is a '' 0.75) ''temperature'' \<noteq> Some (PyFloat 1)"
  by (simp add: issued_by_def events_of_def call_openai_def create_eq
        answers_def start_def print_def effective_def documented_default_def
        unseeded_kwargs_fields)

section \<open>Repeated requests with a seed\<close>

text \<open>
  C2, as amended. With \<open>use_seed=True\<close> and \<open>temperature=0\<close> every request of
  \<open>call_openai\<close> for one prompt is the same request. If the remote answers that request
  in the same way whatever its own state, then any two runs print the same output, and
  all the completions printed within a run are one and the same text. The notebook adds
  no variation of its own; that the remote answers alike is left to the remote.
\<close>

theorem same_answers_same_output:
  assumes "\<forall>w w'. fst (ep (seeded_kwargs model prompt 0) w) = fst (ep (seeded_kwargs model prompt 0) w')"
  shows "set (issued_by (call_openai ep model num_times prompt (Some 0) (Some True)) s) \<subseteq>
           {seeded_kwargs model prompt 0}
       \<and> printed_by (call_openai ep model num_times prompt (Some 0) (Some True)) s =
         printed_by (call_openai ep model num_times prompt (Some 0) (Some True)) s'
       \<and> (\<exists>answer. set (printed_by (call_openai ep model num_times prompt (Some 0) (Some True)) s) \<subseteq>
                     {PrintText answer})"
proof -
  from assms have det:
    "\<forall>w w'. fst (ep (loop_kwargs model prompt 0 True) w) = fst (ep (loop_kwargs model prompt 0 True) w')"
    by (simp add: loop_kwargs_def)
  let ?out = "case fst (ep (loop_kwargs model prompt 0 True) (remote s)) of
              Inl e \<Rightarrow> []
            | Inr response \<Rightarrow>
                (case choices response of
                   [] \<Rightarrow> []
                 | c # _ \<Rightarrow> replicate (nat num_times) (PrintText (content (message c))))"
  have p: "printed_by (call_openai ep model num_times prompt (Some 0) (Some True)) t = ?out" for t
    using call_openai_loop_same_answers [of ep model prompt 0 True "nat num_times" t "remote s", OF det]
    by (simp add: printed_by_def call_openai_def)
  have 1: "set (issued_by (call_openai ep model num_times prompt (Some 0) (Some True)) s) \<subseteq>
           {seeded_kwargs model prompt 0}"
    using issued_by_call_openai [of ep model num_times prompt "Some 0" "Some True" s]
    by (simp add: loop_kwargs_def)
  have 2: "printed_by (call_openai ep model num_times prompt (Some 0) (Some True)) s =
         printed_by (call_openai ep model num_times prompt (Some 0) (Some True)) s'"
    by (simp only: p)
  have 3: "\<exists>answer. set (printed_by (call_openai ep model num_times prompt (Some 0) (Some True)) s) \<subseteq>
                     {PrintText answer}"
  proof (cases "fst (ep (loop_kwargs model prompt 0 True) (remote s))")
    case (Inl e)
    then show ?thesis by (simp add: p)
  next
    case (Inr response)
    show ?thesis
    proof (cases "choices response")
      case Nil
      with Inr show ?thesis by (simp add: p)
    next
      case (Cons c rest)
      with Inr show ?thesis
        by (intro exI [of _ "content (message c)"]) (auto simp: p)
    qed
  qed
  from 1 2 3 show ?thesis by (intro conjI)
qed

theorem same_answers_same_output_witness:
  "printed_by (call_openai (answers [''cat'']) None 2 ''The best pet is a '' (Some 0) (Some True)) (start ()) =
     [PrintText ''cat'', PrintText ''cat'']
 \<and> printed_by (call_openai (answers [''cat'']) None 2 ''The best pet is a '' (Some 0) (Some True)) (start ()) =
   printed_by (call_openai (answers [''cat'']) None 2 ''The best pet is a '' (Some 0) (Some True))
     (snd (call_openai (answers [''cat'']) None 2 ''The best pet is a '' (Some 0) (Some True) (start ())))"
proof -
  have det: "\<forall>w w'. fst (answers [''cat''] (seeded_kwargs None ''The best pet is a '' 0) w) =
                     fst (answers [''cat''] (seeded_kwargs None ''The best pet is a '' 0) w')"
    by (simp add: answers_def)
  have run: "printed_by (call_openai (answers [''cat'']) None 2 ''The best pet is a '' (Some 0) (Some True)) (start ()) =
     [PrintText ''cat'', PrintText ''cat'']"
    by (simp add: printed_by_def call_openai_def numeral_2_eq_2 create_eq answers_def start_def print_def)
  from same_answers_same_output
         [of "answers [''cat'']" None "''The best pet is a ''" 2 "start ()"
             "snd (call_openai (answers [''cat'']) None 2 ''The best pet is a '' (Some 0) (Some True) (start ()))",
          OF det]
  have "printed_by (call_openai (answers [''cat'']) None 2 ''The best pet is a '' (Some 0) (Some True)) (start ()) =
   printed_by (call_openai (answers [''cat'']) None 2 ''The best pet is a '' (Some 0) (Some True))
     (snd (call_openai (answers [''cat'']) None 2 ''The best pet is a '' (Some 0) (Some True) (start ())))"
    by blast
  with run show ?thesis by simp
qed

theorem seeded_runs_differ_counterexample:
  "issued_by (call_openai alternates None 2 ''The best pet is a '' (Some 0) (Some True)) (start False) =
     [seeded_kwargs None ''The best pet is a '' 0, seeded_kwargs None ''The best pet is a '' 0]
 \<and> field (seeded_kwargs None ''The best pet is a '' 0) ''seed'' = Some (PyInt 123)
 \<and> field (seeded_kwargs None ''The best pet is a '' 0) ''temperature'' = Some (PyFloat 0)
 \<and> printed_by (call_openai alternates None 2 ''The best pet is a '' (Some 0) (Some True)) (start False) =
     [PrintText ''cat'', PrintText ''dog'']"
  by (simp add: issued_by_def events_of_def printed_by_def call_openai_def numeral_2_eq_2 create_eq
        alternates_def start_def print_def field_def seeded_kwargs_def SEED_def)

section \<open>Penalties out of range\<close>

text \<open>
  C4, as amended. \<open>call_openai_with_presence_penalty\<close> checks no range: it sends the
  \<open>presence_penalty\<close> it was given, whatever its value, in its one request, and it fails
  with \<open>InvalidParameterError\<close> exactly when the remote rejects that request with this
  error. So a penalty outside \<open>[-2, 2]\<close> fails whenever the remote enforces the range.
  No request of the notebook carries \<open>frequency_penalty\<close>.
\<close>

theorem penalty_rejection_is_remote:
  "issued_by (call_openai_with_presence_penalty ep model presence_penalty) s =
     [presence_penalty_kwargs model presence_penalty]
 \<and> field (presence_penalty_kwargs model presence_penalty) ''presence_penalty'' =
     Some (PyFloat presence_penalty)
 \<and> (\<forall>p \<in> set (issued_by (notebook ep model) s). field p ''frequency_penalty'' = None)
 \<and> (fst (call_openai_with_presence_penalty ep model presence_penalty s) =
       Inl (APIError (InvalidParameterError name)) \<longleftrightarrow>
     fst (ep (presence_penalty_kwargs model presence_penalty) (remote s)) =
       Inl (InvalidParameterError name))
 \<and> ((\<forall>p w v. field p ''presence_penalty'' = Some (PyFloat v) \<and> (v < - 2 \<or> 2 < v) \<longrightarrow>
          fst (ep p w) = Inl (InvalidParameterError ''presence_penalty'')) \<longrightarrow>
     (presence_penalty < - 2 \<or> 2 < presence_penalty) \<longrightarrow>
       fst (call_openai_with_presence_penalty ep model presence_penalty s) =
         Inl (APIError (InvalidParameterError ''presence_penalty'')))"
proof -
  have f: "field (presence_penalty_kwargs model presence_penalty) ''presence_penalty'' =
     Some (PyFloat presence_penalty)"
    by (simp add: field_def presence_penalty_kwargs_def)
  have 3: "\<forall>p \<in> set (issued_by (notebook ep model) s). field p ''frequency_penalty'' = None"
  proof (rule ballI)
    fix p assume "p \<in> set (issued_by (notebook ep model) s)"
    with issued_by_notebook [of ep model s]
    have "p \<in> max_tokens_kwargs model ` {16, 32, 60, 100}
       \<union> ({unseeded_kwargs model ''The best pet is a '' 0.75}
       \<union> ({seeded_kwargs model ''The best pet is a '' 0}
       \<union> ({n_kwargs model}
       \<union> presence_penalty_kwargs model ` {0, 0.5, 1, 1.5, 2})))"
      by blast
    then consider (a) mt where "p = max_tokens_kwargs model mt"
      | (b) "p = unseeded_kwargs model ''The best pet is a '' 0.75"
      | (c) "p = seeded_kwargs model ''The best pet is a '' 0"
      | (d) "p = n_kwargs model"
      | (e) pp where "p = presence_penalty_kwargs model pp"
      by blast
    then show "field p ''frequency_penalty'' = None"
      by cases (simp_all add: absent_fields)
  qed
  have 4: "fst (call_openai_with_presence_penalty ep model presence_penalty s) =
       Inl (APIError (InvalidParameterError name)) \<longleftrightarrow>
     fst (ep (presence_penalty_kwargs model presence_penalty) (remote s)) =
       Inl (InvalidParameterError name)" for name
    by (auto simp: call_openai_with_presence_penalty_eq split: sum.splits list.splits)
  have 5: "(\<forall>p w v. field p ''presence_penalty'' = Some (PyFloat v) \<and> (v < - 2 \<or> 2 < v) \<longrightarrow>
          fst (ep p w) = Inl (InvalidParameterError ''presence_penalty'')) \<longrightarrow>
     (presence_penalty < - 2 \<or> 2 < presence_penalty) \<longrightarrow>
       fst (call_openai_with_presence_penalty ep model presence_penalty s) =
         Inl (APIError (InvalidParameterError ''presence_penalty''))"
    using f 4 [of "''presence_penalty''"] by blast
  from f 3 4 [of name] 5 show ?thesis
    by (simp only: issued_by_presence_penalty simp_thms)
qed

theorem penalty_rejection_is_remote_witness:
  "fst (call_openai_with_presence_penalty enforces_range None 3 (start ())) =
     Inl (APIError (InvalidParameterError ''presence_penalty''))
 \<and> fst (call_openai_with_presence_penalty enforces_range None 2 (start ())) = Inr ''cat''"
proof -
  have enf: "\<forall>p w v. field p ''presence_penalty'' = Some (PyFloat v) \<and> (v < - 2 \<or> 2 < v) \<longrightarrow>
          fst (enforces_range p w) = Inl (InvalidParameterError ''presence_penalty'')"
    by (simp add: enforces_range_def)
  have out: "(3::real) < - 2 \<or> 2 < (3::real)" by simp
  from penalty_rejection_is_remote [of enforces_range None 3 "start ()" "''presence_penalty''"] enf out
  have "fst (call_openai_with_presence_penalty enforces_range None 3 (start ())) =
     Inl (APIError (InvalidParameterError ''presence_penalty''))"
    by blast
  moreover have "fst (call_openai_with_presence_penalty enforces_range None 2 (start ())) = Inr ''cat''"
    by (simp add: call_openai_with_presence_penalty_eq enforces_range_def field_def
          presence_penalty_kwargs_def start_def)
  ultimately show ?thesis by simp
qed

theorem unchecked_penalty_counterexample:
  "issued_by (call_openai_with_presence_penalty (answers [''cat'']) None 3) (start ()) =
     [presence_penalty_kwargs None 3]
 \<and> field (presence_penalty_kwargs None 3) ''presence_penalty'' = Some (PyFloat 3)
 \<and> fst (call_openai_with_presence_penalty (answers [''cat'']) None 3 (start ())) = Inr ''cat''"
  by (simp add: issued_by_presence_penalty call_openai_with_presence_penalty_eq answers_def
        field_def presence_penalty_kwargs_def)

section \<open>A request for no tokens\<close>

text \<open>
  C8, as amended. \<open>call_openai_with_max_tokens(0)\<close> sends \<open>max_tokens=0\<close> as it is, in
  its one request: the function checks no lower bound. It succeeds exactly when the remote
  answers with at least one choice, and then returns the content of the first choice as
  the remote gave it: the empty string exactly when that content is empty. When the remote
  rejects the request, the call fails with the remote's error.
\<close>

theorem max_tokens_zero_is_forwarded:
  "issued_by (call_openai_with_max_tokens ep model 0) s = [max_tokens_kwargs model 0]
 \<and> field (max_tokens_kwargs model 0) ''max_tokens'' = Some (PyInt 0)
 \<and> ((\<exists>answer. fst (call_openai_with_max_tokens ep model 0 s) = Inr answer) \<longleftrightarrow>
     (\<exists>response. fst (ep (max_tokens_kwargs model 0) (remote s)) = Inr response
               \<and> choices response \<noteq> []))
 \<and> (fst (call_openai_with_max_tokens ep model 0 s) = Inr answer \<longleftrightarrow>
     (\<exists>response c rest. fst (ep (max_tokens_kwargs model 0) (remote s)) = Inr response
                      \<and> choices response = c # rest \<and> content (message c) = answer))
 \<and> (fst (ep (max_tokens_kwargs model 0) (remote s)) = Inl e \<longrightarrow>
      fst (call_openai_with_max_tokens ep model 0 s) = Inl (APIError e))"
proof -
  have 2: "field (max_tokens_kwargs model 0) ''max_tokens'' = Some (PyInt 0)"
    by (simp add: field_def max_tokens_kwargs_def)
  have 3: "(\<exists>answer. fst (call_openai_with_max_tokens ep model 0 s) = Inr answer) \<longleftrightarrow>
     (\<exists>response. fst (ep (max_tokens_kwargs model 0) (remote s)) = Inr response
               \<and> choices response \<noteq> [])"
    by (auto simp: call_openai_with_max_tokens_eq split: sum.splits list.splits)
  have 4: "fst (call_openai_with_max_tokens ep model 0 s) = Inr answer \<longleftrightarrow>
     (\<exists>response c rest. fst (ep (max_tokens_kwargs model 0) (remote s)) = Inr response
                      \<and> choices response = c # rest \<and> content (message c) = answer)"
    by (auto simp: call_openai_with_max_tokens_eq split: sum.splits list.splits)
  have 5: "fst (ep (max_tokens_kwargs model 0) (remote s)) = Inl e \<longrightarrow>
      fst (call_openai_with_max_tokens ep model 0 s) = Inl (APIError e)"
    by (simp add: call_openai_with_max_tokens_eq)
  from 2 3 4 5 show ?thesis
    by (simp only: issued_by_max_tokens simp_thms)
qed

theorem max_tokens_zero_is_forwarded_witness:
  "fst (answers [''''] (max_tokens_kwargs None 0) (remote (start ()))) =
     Inr (ChatCompletion [Choice (ChatMessage '''')])
 \<and> fst (call_openai_with_max_tokens (answers ['''']) None 0 (start ())) = Inr ''''"
proof -
  have a: "fst (answers [''''] (max_tokens_kwargs None 0) (remote (start ()))) =
     Inr (ChatCompletion [Choice (ChatMessage '''')])"
    by (simp add: answers_def)
  then have "\<exists>response c rest.
      fst (answers [''''] (max_tokens_kwargs None 0) (remote (start ()))) = Inr response
    \<and> choices response = c # rest \<and> content (message c) = ''''"
    by simp
  with max_tokens_zero_is_forwarded [of "answers ['''']" None "start ()" "''''"]
  have "fst (call_openai_with_max_tokens (answers ['''']) None 0 (start ())) = Inr ''''"
    by blast
  with a show ?thesis by simp
qed

theorem max_tokens_zero_counterexample:
  "fst (call_openai_with_max_tokens (refuses (InvalidParameterError ''max_tokens'')) None 0 (start ())) =
     Inl (APIError (InvalidParameterError ''max_tokens''))
 \<and> fst (call_openai_with_max_tokens (answers [''The best pet really depends on you'']) None 0 (start ())) =
     Inr ''The best pet really depends on you''"
  by (simp add: call_openai_with_max_tokens_eq refuses_def answers_def)

end
